theory Spec2Isabelle
  imports Main "HOL-Library.Word"
begin

section \<open>The code editor controller of editor.js\<close>

text \<open>
  A shallow embedding of \<^verbatim>\<open>src/editor.js\<close>: the \<^verbatim>\<open>CodeEditor\<close> object is a
  record, each prototype method a function from the object to an outcome (the object
  after the call, together with whether the call returned or threw), and the
  collaborators the methods talk to (the CodeFlask text area, \<^verbatim>\<open>Kalebr.Console\<close>,
  \<^verbatim>\<open>saveAs\<close>, the registered change listeners, the browser's \<^verbatim>\<open>DOMParser\<close>)
  are kept as the part of their state that the methods read or write. What a
  collaborator decides on its own (what the text area holds after CodeFlask has rendered a
  text, which document the browser returns for input that is not well-formed XML) is a
  parameter, never a choice of this development.
\<close>

subsection \<open>JavaScript strings\<close>

text \<open>
  A JavaScript string is a sequence of UTF-16 code units, unsigned integers of 16 bits.
  The code unit of an ASCII character is \<open>cu\<close> of it, and \<open>js\<close> turns
  a string literal of the source into its code units.
\<close>

type_synonym code_unit = "16 word"

type_synonym jsstring = "code_unit list"

abbreviation cu :: "char \<Rightarrow> code_unit" where
  "cu \<equiv> of_char"

definition js :: "string \<Rightarrow> jsstring" where
  "js s = map cu s"

text \<open>
  \<^verbatim>\<open>a || b\<close> where \<^verbatim>\<open>a\<close> is a string or \<^verbatim>\<open>undefined\<close>: the empty string and
  \<^verbatim>\<open>undefined\<close> are falsy.
\<close>

definition or_else :: "jsstring option \<Rightarrow> jsstring \<Rightarrow> jsstring" where
  "or_else a b = (case a of None \<Rightarrow> b | Some x \<Rightarrow> if x = [] then b else x)"

text \<open>
  \<^verbatim>\<open>this.code\<close> is a plain object used as a dictionary from language identifiers to
  source text. The map holds its own properties. An assignment \<^verbatim>\<open>obj[k] = v\<close> creates or
  overwrites the own property \<^verbatim>\<open>k\<close>, except for the key \<^verbatim>\<open>__proto__\<close>: that
  assignment runs the setter inherited from \<^verbatim>\<open>Object.prototype\<close>, which ignores a
  string value and creates no property.
\<close>

type_synonym code_map = "jsstring \<rightharpoonup> jsstring"

definition put :: "code_map \<Rightarrow> jsstring \<Rightarrow> jsstring \<Rightarrow> code_map" where
  "put m k v = (if k = js ''__proto__'' then m else m(k \<mapsto> v))"

text \<open>
  The buffer of a language as every reader in the file takes it:
  \<^verbatim>\<open>this.code[language] || ''\<close>, so an absent entry reads as the empty buffer.
\<close>

definition buffer :: "code_map \<Rightarrow> jsstring \<Rightarrow> jsstring" where
  "buffer m k = or_else (m k) []"

datatype js_error = TypeError | ReferenceError

text \<open>
  Line ends as a text area's value and an XML parser both normalise them: a carriage
  return, with the line feed after it if there is one, becomes one line feed.
\<close>

fun normalize_eol :: "jsstring \<Rightarrow> jsstring" where
  "normalize_eol [] = []"
| "normalize_eol [c] = (if c = cu (CHR 0x0D) then [cu (CHR 0x0A)] else [c])"
| "normalize_eol (c # d # cs) =
     (if c = cu (CHR 0x0D) then
        (if d = cu (CHR 0x0A) then cu (CHR 0x0A) # normalize_eol cs
         else cu (CHR 0x0A) # normalize_eol (d # cs))
      else c # normalize_eol (d # cs))"

subsection \<open>The configured languages\<close>

record descriptor =
  lang_value :: jsstring
  lang_text :: jsstring
  lang_language :: "jsstring option"
  lang_extension :: jsstring
  lang_readOnly :: bool

text \<open>
  \<^verbatim>\<open>this.languages\<close> of the constructor (lines 24 to 48). A property the literal leaves
  out (\<^verbatim>\<open>language\<close>, \<^verbatim>\<open>readOnly\<close>) is \<^verbatim>\<open>undefined\<close>: \<^const>\<open>None\<close>, and
  \<^const>\<open>False\<close> for the flag, which is only ever read as a truth value.
\<close>

definition languages :: "descriptor list" where
  "languages =
    [\<lparr>lang_value = js ''python'', lang_text = js ''Python'', lang_language = None,
       lang_extension = js ''.py'', lang_readOnly = False\<rparr>,
     \<lparr>lang_value = js ''javascript'', lang_text = js ''JavaScript'', lang_language = None,
       lang_extension = js ''.js'', lang_readOnly = False\<rparr>,
     \<lparr>lang_value = js ''arduino'', lang_text = js ''Arduino'', lang_language = None,
       lang_extension = js ''.ino'', lang_readOnly = False\<rparr>,
     \<lparr>lang_value = js ''blockly'', lang_text = js ''Blockly'', lang_language = Some (js ''python''),
       lang_extension = js ''.py'', lang_readOnly = True\<rparr>]"

text \<open>
  \<^verbatim>\<open>getLanguageAttributes\<close>: \<^verbatim>\<open>filter(...)[0]\<close>, which is \<^verbatim>\<open>undefined\<close> when no
  descriptor has the identifier.
\<close>

definition getLanguageAttributes :: "jsstring \<Rightarrow> descriptor option" where
  "getLanguageAttributes l =
    (case filter (\<lambda>item. lang_value item = l) languages of
       [] \<Rightarrow> None
     | d # _ \<Rightarrow> Some d)"

subsection \<open>The document object model\<close>

text \<open>
  What \<^verbatim>\<open>loadStateFromXml\<close> reads of an XML document: elements with their
  attributes (in source order) and children, and text nodes.
\<close>

datatype node = Element jsstring "(jsstring \<times> jsstring) list" "node list" | Text jsstring

datatype document = Document node

fun tagName :: "node \<Rightarrow> jsstring" where
  "tagName (Element n as ks) = n"
| "tagName (Text t) = []"

text \<open>The elements of a tree in document order (the node itself first).\<close>

fun elements :: "node \<Rightarrow> node list" where
  "elements (Text t) = []"
| "elements (Element n as ks) = Element n as ks # concat (map elements ks)"

text \<open>\<^verbatim>\<open>document.getElementsByTagName(name)\<close>: in document order, the root included.\<close>

fun getElementsByTagName :: "jsstring \<Rightarrow> document \<Rightarrow> node list" where
  "getElementsByTagName name (Document r) = filter (\<lambda>e. tagName e = name) (elements r)"

text \<open>\<^verbatim>\<open>element.getAttribute(name)\<close>: \<^verbatim>\<open>null\<close> when the attribute is absent.\<close>

fun getAttribute :: "node \<Rightarrow> jsstring \<Rightarrow> jsstring option" where
  "getAttribute (Element n as ks) a = map_of as a"
| "getAttribute (Text t) a = None"

text \<open>
  \<^verbatim>\<open>element.innerHTML\<close> of an element of an XML document is the XML serialization of
  its children (DOM Parsing and Serialization): in text, \<^verbatim>\<open>&\<close>, \<^verbatim>\<open><\<close> and \<^verbatim>\<open>>\<close>
  are written as \<^verbatim>\<open>&amp;\<close>, \<^verbatim>\<open>&lt;\<close> and \<^verbatim>\<open>&gt;\<close>; in an attribute value the
  double quote too; an element without children is written as an empty-element tag.
\<close>

definition escape_text :: "jsstring \<Rightarrow> jsstring" where
  "escape_text t = concat (map (\<lambda>c.
     if c = cu CHR ''&'' then js ''&amp;''
     else if c = cu CHR ''<'' then js ''&lt;''
     else if c = cu CHR ''>'' then js ''&gt;''
     else [c]) t)"

definition escape_attr :: "jsstring \<Rightarrow> jsstring" where
  "escape_attr v = concat (map (\<lambda>c.
     if c = cu CHR ''&'' then js ''&amp;''
     else if c = cu CHR ''<'' then js ''&lt;''
     else if c = cu CHR ''>'' then js ''&gt;''
     else if c = cu (CHR 0x22) then js ''&quot;''
     else [c]) v)"

fun serialize :: "node \<Rightarrow> jsstring" where
  \<open>serialize (Text t) = escape_text t\<close>
| \<open>serialize (Element n as ks) =
     js ''<'' @ n @ concat (map (\<lambda>(a, v). js '' '' @ a @ js ''="'' @ escape_attr v @ js ''"'') as) @
     (if ks = [] then js ''/>'' else js ''>'' @ concat (map serialize ks) @ js ''</'' @ n @ js ''>'')\<close>

fun innerHTML :: "node \<Rightarrow> jsstring" where
  "innerHTML (Element n as ks) = concat (map serialize ks)"
| "innerHTML (Text t) = []"

subsection \<open>The XML parser behind DOMParser\<close>

text \<open>
  \<^verbatim>\<open>new DOMParser().parseFromString(s, 'text/xml')\<close> is the browser's XML parser. What
  every conforming parser does is modelled for the fragment of XML 1.0 that the persisted
  state uses: elements, attributes in single or double quotes, character data and the five
  predefined entities. The parser reads one code unit at a time and keeps the stack of open
  elements. It yields the tree of a well-formed document of that fragment, and stops,
  yielding nothing, as soon as the input is not well formed or steps outside the fragment
  (comments, processing instructions, CDATA sections, document type declarations, character
  references, namespaces, names with characters beyond ASCII). What the browser returns for
  an input on which the model stops is not decided here.
\<close>

text \<open>
  The characters an XML 1.0 document may hold, in UTF-16: tab, line feed, carriage return,
  the code units from \<open>0x20\<close> to \<open>0xD7FF\<close> and from \<open>0xE000\<close> to \<open>0xFFFD\<close>, and a high
  surrogate followed by a low surrogate. Other control characters, \<open>0xFFFE\<close>,
  \<open>0xFFFF\<close> and a surrogate without its partner are not allowed.
\<close>

definition bmp_xml_char :: "code_unit \<Rightarrow> bool" where
  "bmp_xml_char c =
    (c = cu (CHR 0x09) \<or> c = cu (CHR 0x0A) \<or> c = cu (CHR 0x0D) \<or>
     (0x20 \<le> c \<and> c \<le> 0xD7FF) \<or> (0xE000 \<le> c \<and> c \<le> 0xFFFD))"

definition high_surrogate :: "code_unit \<Rightarrow> bool" where
  "high_surrogate c = (0xD800 \<le> c \<and> c \<le> 0xDBFF)"

definition low_surrogate :: "code_unit \<Rightarrow> bool" where
  "low_surrogate c = (0xDC00 \<le> c \<and> c \<le> 0xDFFF)"

fun xml_chars :: "jsstring \<Rightarrow> bool" where
  "xml_chars [] = True"
| "xml_chars [c] = bmp_xml_char c"
| "xml_chars (c # d # cs) =
     (if high_surrogate c then low_surrogate d \<and> xml_chars cs
      else bmp_xml_char c \<and> xml_chars (d # cs))"

text \<open>White space inside the document, after line ends have been normalised.\<close>

definition is_space :: "code_unit \<Rightarrow> bool" where
  "is_space c = (c = cu CHR '' '' \<or> c = cu (CHR 0x09) \<or> c = cu (CHR 0x0A))"

text \<open>The ASCII characters of names; a name with any other character is outside the fragment.\<close>

definition name_start :: "code_unit \<Rightarrow> bool" where
  "name_start c =
    ((cu CHR ''a'' \<le> c \<and> c \<le> cu CHR ''z'') \<or> (cu CHR ''A'' \<le> c \<and> c \<le> cu CHR ''Z'') \<or>
     c = cu CHR ''_'')"

definition name_char :: "code_unit \<Rightarrow> bool" where
  "name_char c =
    (name_start c \<or> (cu CHR ''0'' \<le> c \<and> c \<le> cu CHR ''9'') \<or> c = cu CHR ''-'' \<or> c = cu CHR ''.'')"

definition entity :: "jsstring \<Rightarrow> code_unit option" where
  "entity = map_of [(js ''lt'', cu CHR ''<''), (js ''gt'', cu CHR ''>''), (js ''amp'', cu CHR ''&''),
                    (js ''quot'', cu (CHR 0x22)), (js ''apos'', cu (CHR 0x27))]"

datatype pmode =
    Content
  | Ref jsstring
  | Lt
  | STagName jsstring
  | InTag jsstring "(jsstring \<times> jsstring) list"
  | AttrName jsstring "(jsstring \<times> jsstring) list" jsstring
  | AttrEq jsstring "(jsstring \<times> jsstring) list" jsstring
  | AttrQuote jsstring "(jsstring \<times> jsstring) list" jsstring
  | AttrValue jsstring "(jsstring \<times> jsstring) list" jsstring code_unit jsstring
  | AttrRef jsstring "(jsstring \<times> jsstring) list" jsstring code_unit jsstring jsstring
  | AfterAttr jsstring "(jsstring \<times> jsstring) list"
  | Slash jsstring "(jsstring \<times> jsstring) list"
  | ETagName jsstring
  | ETagEnd jsstring
  | Stopped

text \<open>
  The parser's state: where it is in the grammar, the open elements (innermost first, each
  with its attributes and the children read so far), the character data read since the last
  markup, and the root element once it is closed.
\<close>

record pstate =
  pmode :: pmode
  opened :: "(jsstring \<times> (jsstring \<times> jsstring) list \<times> node list) list"
  pending :: jsstring
  root :: "node option"

definition start :: pstate where
  "start = \<lparr>pmode = Content, opened = [], pending = [], root = None\<rparr>"

definition stop :: "pstate \<Rightarrow> pstate" where
  "stop st = st\<lparr>pmode := Stopped\<rparr>"

text \<open>A finished node becomes the last child of the innermost open element, or the root.\<close>

definition attach :: "node \<Rightarrow> pstate \<Rightarrow> pstate" where
  "attach n st =
    (case opened st of
       [] \<Rightarrow> st\<lparr>root := Some n\<rparr>
     | (t, as, ks) # fs \<Rightarrow> st\<lparr>opened := (t, as, ks @ [n]) # fs\<rparr>)"

definition flush :: "pstate \<Rightarrow> pstate" where
  "flush st = (if pending st = [] then st else (attach (Text (pending st)) st)\<lparr>pending := []\<rparr>)"

definition open_element :: "jsstring \<Rightarrow> (jsstring \<times> jsstring) list \<Rightarrow> pstate \<Rightarrow> pstate" where
  "open_element n as st = st\<lparr>pmode := Content, opened := (n, as, []) # opened st\<rparr>"

definition empty_element :: "jsstring \<Rightarrow> (jsstring \<times> jsstring) list \<Rightarrow> pstate \<Rightarrow> pstate" where
  "empty_element n as st = (attach (Element n as []) st)\<lparr>pmode := Content\<rparr>"

definition close_element :: "jsstring \<Rightarrow> pstate \<Rightarrow> pstate" where
  "close_element e st =
    (case opened st of
       [] \<Rightarrow> stop st
     | (t, as, ks) # fs \<Rightarrow>
         if t = e then (attach (Element t as ks) (st\<lparr>opened := fs\<rparr>))\<lparr>pmode := Content\<rparr>
         else stop st)"

text \<open>An attribute is complete: its name must be new in the tag; a namespace declaration is outside the fragment.\<close>

definition end_attr ::
  "jsstring \<Rightarrow> (jsstring \<times> jsstring) list \<Rightarrow> jsstring \<Rightarrow> jsstring \<Rightarrow> pstate \<Rightarrow> pstate" where
  "end_attr n as a v st =
    (if a \<in> set (map fst as) \<or> a = js ''xmlns'' then stop st
     else st\<lparr>pmode := AfterAttr n (as @ [(a, v)])\<rparr>)"

text \<open>Character data may not hold the sequence \<^verbatim>\<open>]]>\<close>.\<close>

definition ends_brackets :: "jsstring \<Rightarrow> bool" where
  "ends_brackets p = (2 \<le> length p \<and> drop (length p - 2) p = js '']]'')"

definition step_content :: "pstate \<Rightarrow> code_unit \<Rightarrow> pstate" where
  "step_content st c =
    (if c = cu CHR ''<'' then (flush st)\<lparr>pmode := Lt\<rparr>
     else if opened st = [] then (if is_space c then st else stop st)
     else if c = cu CHR ''&'' then st\<lparr>pmode := Ref []\<rparr>
     else if c = cu CHR ''>'' \<and> ends_brackets (pending st) then stop st
     else st\<lparr>pending := pending st @ [c]\<rparr>)"

definition step_ref :: "jsstring \<Rightarrow> pstate \<Rightarrow> code_unit \<Rightarrow> pstate" where
  "step_ref e st c =
    (if c = cu CHR '';'' then
       (case entity e of
          Some ch \<Rightarrow> st\<lparr>pmode := Content, pending := pending st @ [ch]\<rparr>
        | None \<Rightarrow> stop st)
     else if name_char c then st\<lparr>pmode := Ref (e @ [c])\<rparr>
     else stop st)"

definition step_lt :: "pstate \<Rightarrow> code_unit \<Rightarrow> pstate" where
  "step_lt st c =
    (if c = cu CHR ''/'' then (if opened st = [] then stop st else st\<lparr>pmode := ETagName []\<rparr>)
     else if name_start c then
       (if opened st = [] \<and> root st \<noteq> None then stop st else st\<lparr>pmode := STagName [c]\<rparr>)
     else stop st)"

definition step_stagname :: "jsstring \<Rightarrow> pstate \<Rightarrow> code_unit \<Rightarrow> pstate" where
  "step_stagname n st c =
    (if name_char c then st\<lparr>pmode := STagName (n @ [c])\<rparr>
     else if is_space c then st\<lparr>pmode := InTag n []\<rparr>
     else if c = cu CHR ''>'' then open_element n [] st
     else if c = cu CHR ''/'' then st\<lparr>pmode := Slash n []\<rparr>
     else stop st)"

definition step_intag :: "jsstring \<Rightarrow> (jsstring \<times> jsstring) list \<Rightarrow> pstate \<Rightarrow> code_unit \<Rightarrow> pstate" where
  "step_intag n as st c =
    (if is_space c then st
     else if c = cu CHR ''>'' then open_element n as st
     else if c = cu CHR ''/'' then st\<lparr>pmode := Slash n as\<rparr>
     else if name_start c then st\<lparr>pmode := AttrName n as [c]\<rparr>
     else stop st)"

definition step_attrname ::
  "jsstring \<Rightarrow> (jsstring \<times> jsstring) list \<Rightarrow> jsstring \<Rightarrow> pstate \<Rightarrow> code_unit \<Rightarrow> pstate" where
  "step_attrname n as a st c =
    (if name_char c then st\<lparr>pmode := AttrName n as (a @ [c])\<rparr>
     else if is_space c then st\<lparr>pmode := AttrEq n as a\<rparr>
     else if c = cu CHR ''='' then st\<lparr>pmode := AttrQuote n as a\<rparr>
     else stop st)"

definition step_attreq ::
  "jsstring \<Rightarrow> (jsstring \<times> jsstring) list \<Rightarrow> jsstring \<Rightarrow> pstate \<Rightarrow> code_unit \<Rightarrow> pstate" where
  "step_attreq n as a st c =
    (if is_space c then st
     else if c = cu CHR ''='' then st\<lparr>pmode := AttrQuote n as a\<rparr>
     else stop st)"

definition step_attrquote ::
  "jsstring \<Rightarrow> (jsstring \<times> jsstring) list \<Rightarrow> jsstring \<Rightarrow> pstate \<Rightarrow> code_unit \<Rightarrow> pstate" where
  "step_attrquote n as a st c =
    (if is_space c then st
     else if c = cu (CHR 0x22) \<or> c = cu (CHR 0x27) then st\<lparr>pmode := AttrValue n as a c []\<rparr>
     else stop st)"

text \<open>Inside an attribute value, tab and line feed are normalised to a space.\<close>

definition step_attrvalue ::
  "jsstring \<Rightarrow> (jsstring \<times> jsstring) list \<Rightarrow> jsstring \<Rightarrow> code_unit \<Rightarrow> jsstring \<Rightarrow> pstate \<Rightarrow> code_unit \<Rightarrow> pstate" where
  "step_attrvalue n as a q v st c =
    (if c = q then end_attr n as a v st
     else if c = cu CHR ''<'' then stop st
     else if c = cu CHR ''&'' then st\<lparr>pmode := AttrRef n as a q v []\<rparr>
     else if is_space c then st\<lparr>pmode := AttrValue n as a q (v @ js '' '')\<rparr>
     else st\<lparr>pmode := AttrValue n as a q (v @ [c])\<rparr>)"

definition step_attrref ::
  "jsstring \<Rightarrow> (jsstring \<times> jsstring) list \<Rightarrow> jsstring \<Rightarrow> code_unit \<Rightarrow> jsstring \<Rightarrow> jsstring \<Rightarrow> pstate \<Rightarrow> code_unit \<Rightarrow> pstate" where
  "step_attrref n as a q v e st c =
    (if c = cu CHR '';'' then
       (case entity e of
          Some ch \<Rightarrow> st\<lparr>pmode := AttrValue n as a q (v @ [ch])\<rparr>
        | None \<Rightarrow> stop st)
     else if name_char c then st\<lparr>pmode := AttrRef n as a q v (e @ [c])\<rparr>
     else stop st)"

definition step_afterattr :: "jsstring \<Rightarrow> (jsstring \<times> jsstring) list \<Rightarrow> pstate \<Rightarrow> code_unit \<Rightarrow> pstate" where
  "step_afterattr n as st c =
    (if is_space c then st\<lparr>pmode := InTag n as\<rparr>
     else if c = cu CHR ''>'' then open_element n as st
     else if c = cu CHR ''/'' then st\<lparr>pmode := Slash n as\<rparr>
     else stop st)"

definition step_slash :: "jsstring \<Rightarrow> (jsstring \<times> jsstring) list \<Rightarrow> pstate \<Rightarrow> code_unit \<Rightarrow> pstate" where
  "step_slash n as st c = (if c = cu CHR ''>'' then empty_element n as st else stop st)"

definition step_etagname :: "jsstring \<Rightarrow> pstate \<Rightarrow> code_unit \<Rightarrow> pstate" where
  "step_etagname e st c =
    (if (if e = [] then name_start c else name_char c) then st\<lparr>pmode := ETagName (e @ [c])\<rparr>
     else if e \<noteq> [] \<and> is_space c then st\<lparr>pmode := ETagEnd e\<rparr>
     else if e \<noteq> [] \<and> c = cu CHR ''>'' then close_element e st
     else stop st)"

definition step_etagend :: "jsstring \<Rightarrow> pstate \<Rightarrow> code_unit \<Rightarrow> pstate" where
  "step_etagend e st c =
    (if is_space c then st
     else if c = cu CHR ''>'' then close_element e st
     else stop st)"

definition step :: "pstate \<Rightarrow> code_unit \<Rightarrow> pstate" where
  "step st c =
    (case pmode st of
       Content \<Rightarrow> step_content st c
     | Ref e \<Rightarrow> step_ref e st c
     | Lt \<Rightarrow> step_lt st c
     | STagName n \<Rightarrow> step_stagname n st c
     | InTag n as \<Rightarrow> step_intag n as st c
     | AttrName n as a \<Rightarrow> step_attrname n as a st c
     | AttrEq n as a \<Rightarrow> step_attreq n as a st c
     | AttrQuote n as a \<Rightarrow> step_attrquote n as a st c
     | AttrValue n as a q v \<Rightarrow> step_attrvalue n as a q v st c
     | AttrRef n as a q v e \<Rightarrow> step_attrref n as a q v e st c
     | AfterAttr n as \<Rightarrow> step_afterattr n as st c
     | Slash n as \<Rightarrow> step_slash n as st c
     | ETagName e \<Rightarrow> step_etagname e st c
     | ETagEnd e \<Rightarrow> step_etagend e st c
     | Stopped \<Rightarrow> st)"

text \<open>
  At the end of the input the document is well formed when exactly one root element has
  been read and closed.
\<close>

definition finish :: "pstate \<Rightarrow> node option" where
  "finish st =
    (case pmode st of
       Content \<Rightarrow> (if opened st = [] then root st else None)
     | _ \<Rightarrow> None)"

text \<open>
  The root element of the input when it is a well-formed document of the fragment;
  \<^const>\<open>None\<close> when it is not well formed or outside the fragment.
\<close>

definition parse_xml :: "jsstring \<Rightarrow> node option" where
  "parse_xml x = (if xml_chars x then finish (foldl step start (normalize_eol x)) else None)"

text \<open>
  \<^verbatim>\<open>parseFromString\<close> never throws and always returns a document. For a well-formed
  document of the fragment it is the tree read. For every other input it is what the
  browser at hand returns, the parameter \<open>browser\<close>: for input that is not well formed the
  HTML Standard prescribes a document whose only element is \<^verbatim>\<open>parsererror\<close>, and
  some browsers return the elements read before the error together with a
  \<^verbatim>\<open>parsererror\<close> element.
\<close>

definition parseFromString :: "(jsstring \<Rightarrow> document) \<Rightarrow> jsstring \<Rightarrow> document" where
  "parseFromString browser x =
    (case parse_xml x of
       Some r \<Rightarrow> Document r
     | None \<Rightarrow> browser x)"

text \<open>The error document of the HTML Standard.\<close>

definition parsererror_only :: "jsstring \<Rightarrow> document" where
  "parsererror_only x = Document (Element (js ''parsererror'') [] [])"

text \<open>
  A browser that keeps what it has read: for the truncated document
  \<^verbatim>\<open><editor><language value="python">x=1</language>\<close> it returns the \<^verbatim>\<open>editor\<close>
  element with a \<^verbatim>\<open>parsererror\<close> element and the \<^verbatim>\<open>language\<close> element read before
  the end of the input, as Chromium does. (For any other input it is given the error
  document of the HTML Standard, which plays no part in what follows.)
\<close>

definition keeps_read_elements :: "jsstring \<Rightarrow> document" where
  \<open>keeps_read_elements x =
    (if x = js ''<editor><language value="python">x=1</language>''
     then Document (Element (js ''editor'') []
            [Element (js ''parsererror'') [] [],
             Element (js ''language'') [(js ''value'', js ''python'')] [Text (js ''x=1'')]])
     else parsererror_only x)\<close>

subsection \<open>The editor object and its collaborators\<close>

datatype event = LANGUAGE_SELECTED jsstring | CODE_UPDATED

text \<open>
  A change listener is a function of the host. What the controller can observe of one is
  that it is called, with which event, and what it does to the controller's listener
  list while it runs: a listener is an identity and the registrations and removals its
  body performs, in order. Listeners return normally.
\<close>

datatype listener = Listener nat "effect list"
  and effect = Register listener | Unregister nat

fun listener_id :: "listener \<Rightarrow> nat" where
  "listener_id (Listener i effs) = i"

fun effects :: "listener \<Rightarrow> effect list" where
  "effects (Listener i effs) = effs"

text \<open>
  The global \<^verbatim>\<open>Kalebr\<close> of the host page: not declared at all, declared without a
  \<^verbatim>\<open>Console\<close>, or declared with one.
\<close>

datatype host_global = Undeclared | WithoutConsole | WithConsole

text \<open>
  The fields of \<^verbatim>\<open>CodeEditor\<close> that the modelled methods use, and the observable state
  of the collaborators: the syntax CodeFlask was last run with, the text of the editor's
  text area, the language captured by the callback last given to \<^verbatim>\<open>flask.onUpdate\<close>,
  the text area's read-only flag, the push button's disabled class, and the calls made so
  far to \<^verbatim>\<open>Kalebr.Console.upload\<close>, to \<^verbatim>\<open>saveAs\<close> (text of the blob and file name)
  and to the change listeners.

  \<open>flask_update\<close> is the highlighting engine at hand: the value that the text area holds
  after \<^verbatim>\<open>flask.update(text)\<close>. It is decided by CodeFlask and by the text area (whose
  value has its line ends normalised, and which CodeFlask may rewrite further), not by this
  file, and is a parameter of the editor.

  The field \<^verbatim>\<open>listeners_\<close> is \<^verbatim>\<open>listeners\<close> here.
\<close>

record editor =
  language :: jsstring
  code :: code_map
  listeners :: "listener list"
  flask_update :: "jsstring \<Rightarrow> jsstring"
  flask_language :: jsstring
  textarea :: jsstring
  onUpdate_language :: jsstring
  textarea_readOnly :: bool
  push_disabled :: bool
  Kalebr :: host_global
  uploaded :: "jsstring list"
  saved :: "(jsstring \<times> jsstring) list"
  invoked :: "(nat \<times> event) list"

text \<open>A call returns, or throws and leaves the object as it was at the throw.\<close>

datatype outcome = Returns editor | Throws js_error editor

fun state_of :: "outcome \<Rightarrow> editor" where
  "state_of (Returns s) = s"
| "state_of (Throws e s) = s"

definition getSelectedLanguage :: "editor \<Rightarrow> jsstring" where
  "getSelectedLanguage s = language s"

subsection \<open>Change listeners\<close>

definition addChangeListener :: "listener \<Rightarrow> editor \<Rightarrow> listener \<times> editor" where
  "addChangeListener func s = (func, s\<lparr>listeners := listeners s @ [func]\<rparr>)"

fun perform :: "effect \<Rightarrow> editor \<Rightarrow> editor" where
  "perform (Register f) s = snd (addChangeListener f s)"
| "perform (Unregister i) s = s\<lparr>listeners := filter (\<lambda>f. listener_id f \<noteq> i) (listeners s)\<rparr>"

text \<open>\<^verbatim>\<open>func(event)\<close>: the call is recorded, then the body runs.\<close>

definition call :: "listener \<Rightarrow> event \<Rightarrow> editor \<Rightarrow> editor" where
  "call func ev s = foldl (\<lambda>s' e. perform e s') (s\<lparr>invoked := invoked s @ [(listener_id func, ev)]\<rparr>) (effects func)"

text \<open>
  The loop of \<^verbatim>\<open>fireChangeListener\<close> over the copy \<^verbatim>\<open>currentListeners\<close>:
  \<^verbatim>\<open>for (var i = 0, func; func = currentListeners[i]; i++) func(event)\<close>. The entries are
  functions (the parameter type of \<^verbatim>\<open>addChangeListener\<close>), hence truthy, so
  \<^verbatim>\<open>currentListeners[i]\<close> is falsy exactly when \<^verbatim>\<open>i\<close> is past the end.
\<close>

function fire_loop :: "listener list \<Rightarrow> nat \<Rightarrow> event \<Rightarrow> editor \<Rightarrow> editor" where
  "fire_loop currentListeners i ev s =
    (if i < length currentListeners
     then fire_loop currentListeners (Suc i) ev (call (currentListeners ! i) ev s)
     else s)"
  by pat_completeness auto
termination
  by (relation "measure (\<lambda>(currentListeners, i, ev, s). length currentListeners - i)") auto

declare fire_loop.simps [simp del]

definition fireChangeListener :: "event \<Rightarrow> editor \<Rightarrow> editor" where
  "fireChangeListener ev s = (let currentListeners = listeners s in fire_loop currentListeners 0 ev s)"

subsection \<open>Rendering and language selection\<close>

text \<open>
  \<^verbatim>\<open>refreshEditor(language)\<close>; \<^const>\<open>None\<close> is the call without an argument. Reading
  \<^verbatim>\<open>languageAttributes.language\<close> throws a \<^verbatim>\<open>TypeError\<close> when no descriptor was found.
  \<^verbatim>\<open>flask.run\<close> builds a new text area, \<^verbatim>\<open>flask.update(oldCode)\<close> gives it the text
  that the engine makes of the buffer, and \<^verbatim>\<open>flask.onUpdate\<close> installs the callback that
  writes edits back.
\<close>

definition refreshEditor :: "jsstring option \<Rightarrow> editor \<Rightarrow> outcome" where
  "refreshEditor arg s =
    (let l = (case arg of
                None \<Rightarrow> or_else (Some (language s)) (js ''python'')
              | Some a \<Rightarrow> if a = [] then or_else (Some (language s)) (js ''python'') else a)
     in case getLanguageAttributes l of
          None \<Rightarrow> Throws TypeError s
        | Some languageAttributes \<Rightarrow>
            (let oldCode = or_else (code s l) []
             in Returns (s\<lparr>flask_language := or_else (lang_language languageAttributes) l,
                           textarea := flask_update s oldCode,
                           onUpdate_language := l,
                           textarea_readOnly := lang_readOnly languageAttributes\<rparr>)))"


definition disablePushButton :: "bool \<Rightarrow> editor \<Rightarrow> editor" where
  "disablePushButton disable s = s\<lparr>push_disabled := disable\<rparr>"

definition updatePushButtonStatus :: "jsstring \<Rightarrow> editor \<Rightarrow> editor" where
  "updatePushButtonStatus l s = disablePushButton (l \<noteq> js ''python'') s"

definition changeLanguage :: "jsstring \<Rightarrow> editor \<Rightarrow> outcome" where
  "changeLanguage l s =
    (case refreshEditor (Some l) (s\<lparr>language := l\<rparr>) of
       Throws e s' \<Rightarrow> Throws e s'
     | Returns s' \<Rightarrow> Returns (fireChangeListener (LANGUAGE_SELECTED l) (updatePushButtonStatus l s')))"

text \<open>
  The constructor, for a host element that exists and an \<^verbatim>\<open>opts\<close> object: the fields,
  then \<^verbatim>\<open>initCodeFlask\<close>, which refreshes the editor for \<^verbatim>\<open>this.language\<close>. The
  highlighting engine and the host's \<^verbatim>\<open>Kalebr\<close> are parameters.
\<close>

definition CodeEditor :: "(jsstring \<Rightarrow> jsstring) \<Rightarrow> host_global \<Rightarrow> outcome" where
  "CodeEditor flask k =
    refreshEditor (Some (js ''python''))
      \<lparr>language = js ''python'', code = Map.empty, listeners = [], flask_update = flask,
       flask_language = [], textarea = [], onUpdate_language = [],
       textarea_readOnly = False, push_disabled = False, Kalebr = k,
       uploaded = [], saved = [], invoked = []\<rparr>"

text \<open>
  An engine that hands the text to the text area as it is: the text area's value is the
  text with its line ends normalised.
\<close>

definition plain_textarea :: "jsstring \<Rightarrow> jsstring" where
  "plain_textarea c = normalize_eol c"

text \<open>A new editor with that engine, on a host that has \<^verbatim>\<open>Kalebr.Console\<close>.\<close>

definition new_editor :: editor where
  "new_editor = state_of (CodeEditor plain_textarea WithConsole)"

definition addCodeToEditor :: "jsstring \<Rightarrow> jsstring \<Rightarrow> editor \<Rightarrow> editor" where
  "addCodeToEditor c l s = s\<lparr>code := put (code s) l c\<rparr>"

subsection \<open>Push and save\<close>


text \<open>
  \<^verbatim>\<open>this.languages[this.language]\<close> indexes the array with a string. The key names an
  element only when it is the canonical decimal form of an index below the length; under
  every other key the array has no descriptor (\<^verbatim>\<open>undefined\<close>, or \<^verbatim>\<open>length\<close> and the
  inherited methods, none of which has an \<^verbatim>\<open>extension\<close>).
\<close>

definition digit_of :: "code_unit \<Rightarrow> nat" where
  "digit_of c = unat (c - cu CHR ''0'')"

definition index_of_key :: "jsstring \<Rightarrow> nat option" where
  "index_of_key k =
    (if k \<noteq> [] \<and> list_all (\<lambda>c. cu CHR ''0'' \<le> c \<and> c \<le> cu CHR ''9'') k \<and>
        (hd k \<noteq> cu CHR ''0'' \<or> k = js ''0'')
     then Some (foldl (\<lambda>n c. 10 * n + digit_of c) 0 k) else None)"

definition element_at :: "'a list \<Rightarrow> jsstring \<Rightarrow> 'a option" where
  "element_at xs k =
    (case index_of_key k of
       None \<Rightarrow> None
     | Some i \<Rightarrow> if i < length xs then Some (xs ! i) else None)"

text \<open>
  \<^verbatim>\<open>saveCode\<close>: without a descriptor under the key, line 337 or the argument of
  \<^verbatim>\<open>saveAs\<close> in line 341 throws a \<^verbatim>\<open>TypeError\<close> before \<^verbatim>\<open>saveAs\<close> is called. With
  one, \<^verbatim>\<open>extension[this.language]\<close> indexes the extension string with the same key: one
  character, or \<^verbatim>\<open>undefined\<close>, which the concatenation writes out.
\<close>

definition saveCode :: "jsstring \<Rightarrow> editor \<Rightarrow> outcome" where
  "saveCode fileName s =
    (let c = textarea s in
     case element_at languages (language s) of
       None \<Rightarrow> Throws TypeError s
     | Some d \<Rightarrow>
         let extension = lang_extension d;
             suffix = (case element_at extension (language s) of
                         None \<Rightarrow> js ''undefined''
                       | Some ch \<Rightarrow> [ch])
         in Returns (s\<lparr>saved := saved s @ [(c, fileName @ suffix)]\<rparr>))"

subsection \<open>Persisted state\<close>

text \<open>\<^verbatim>\<open>nodes.join("")\<close>: an \<^verbatim>\<open>undefined\<close> entry is joined as the empty string.\<close>

definition join :: "jsstring option list \<Rightarrow> jsstring" where
  "join nodes = concat (map (\<lambda>n. case n of None \<Rightarrow> [] | Some x \<Rightarrow> x) nodes)"

definition getStateAsXmlString :: "editor \<Rightarrow> jsstring" where
  \<open>getStateAsXmlString s =
    (let nodes = map (\<lambda>d.
       if lang_value d = js ''blockly'' then None
       else Some (js ''<language value="'' @ lang_value d @ js ''" >'' @
                  or_else (code s (lang_value d)) [] @ js ''</language>'')) languages
     in js ''<editor>'' @ join nodes @ js ''</editor>'')\<close>

text \<open>A property key made from the result of \<^verbatim>\<open>getAttribute\<close>: \<^verbatim>\<open>null\<close> becomes the key \<^verbatim>\<open>null\<close>.\<close>

definition key_of :: "jsstring option \<Rightarrow> jsstring" where
  "key_of a = (case a of None \<Rightarrow> js ''null'' | Some v \<Rightarrow> v)"

text \<open>The loop of \<^verbatim>\<open>loadStateFromXml\<close> over the elements found.\<close>

fun load_loop :: "node list \<Rightarrow> code_map \<Rightarrow> code_map" where
  "load_loop [] m = m"
| "load_loop (element # rest) m =
     load_loop rest (put m (key_of (getAttribute element (js ''value''))) (innerHTML element))"

definition loadStateFromXml :: "document \<Rightarrow> editor \<Rightarrow> outcome" where
  "loadStateFromXml xml s =
    refreshEditor None (s\<lparr>code := load_loop (getElementsByTagName (js ''language'') xml) (code s)\<rparr>)"

text \<open>
  \<^verbatim>\<open>loadStateFromXmlString\<close>; the browser's \<^verbatim>\<open>DOMParser\<close>, a function from the input
  to the document it returns, is a parameter.
\<close>

definition loadStateFromXmlString :: "(jsstring \<Rightarrow> document) \<Rightarrow> jsstring \<Rightarrow> editor \<Rightarrow> outcome" where
  "loadStateFromXmlString parser xmlString s =
    (let xmlDoc = parser xmlString in loadStateFromXml xmlDoc s)"

definition clear :: "editor \<Rightarrow> outcome" where
  "clear s = refreshEditor None (s\<lparr>code := Map.empty\<rparr>)"

text \<open>
  The round trip \<^verbatim>\<open>t.loadStateFromXmlString(s.getStateAsXmlString())\<close>, read at one
  language: the buffer of \<open>l\<close> in the editor \<open>t\<close> after it has loaded the serialized
  state of the editor \<open>s\<close>, in a browser with the given parser.
\<close>

definition reloaded :: "(jsstring \<Rightarrow> document) \<Rightarrow> editor \<Rightarrow> editor \<Rightarrow> jsstring \<Rightarrow> jsstring" where
  "reloaded parser s t l =
    buffer (code (state_of (loadStateFromXmlString parser (getStateAsXmlString s) t))) l"

subsection \<open>The persisted format as the specification writes it\<close>

text \<open>
  The specification gives the format as
  \<^verbatim>\<open><editor><language value="LANG_ID">RAW_CODE_TEXT</language>...</editor>\<close>, with one
  element for each configured language except \<^verbatim>\<open>blockly\<close>. These two definitions follow
  the specification's words, to be compared with \<^const>\<open>getStateAsXmlString\<close>.
\<close>

definition spec_language_element :: "jsstring \<Rightarrow> jsstring \<Rightarrow> jsstring" where
  \<open>spec_language_element l c = js ''<language value="'' @ l @ js ''">'' @ c @ js ''</language>''\<close>

definition spec_state_string :: "code_map \<Rightarrow> jsstring" where
  "spec_state_string m =
    js ''<editor>'' @
    concat (map (\<lambda>l. spec_language_element l (buffer m l))
      (filter (\<lambda>l. l \<noteq> js ''blockly'') (map lang_value languages))) @
    js ''</editor>''"

subsection \<open>Text that survives the persisted format\<close>

text \<open>
  Plain text: a sequence of characters that an XML document may hold, without
  \<^verbatim>\<open><\<close>, \<^verbatim>\<open>&\<close>, \<^verbatim>\<open>>\<close> and carriage return. XML carries it unchanged as character
  data and the serialization of a text node writes it as it is.
\<close>

definition markup_free :: "code_unit \<Rightarrow> bool" where
  "markup_free c =
    (c \<noteq> cu CHR ''<'' \<and> c \<noteq> cu CHR ''&'' \<and> c \<noteq> cu CHR ''>'' \<and> c \<noteq> cu (CHR 0x0D))"

definition plain_text :: "jsstring \<Rightarrow> bool" where
  "plain_text t = (xml_chars t \<and> list_all markup_free t)"

text \<open>Characters that a double-quoted attribute value carries unchanged.\<close>

definition attr_plain :: "code_unit \<Rightarrow> bool" where
  "attr_plain c =
    (c \<noteq> cu (CHR 0x22) \<and> c \<noteq> cu CHR ''<'' \<and> c \<noteq> cu CHR ''&'' \<and>
     c \<noteq> cu (CHR 0x09) \<and> c \<noteq> cu (CHR 0x0A))"

text \<open>The children of an element whose content is the character data \<open>t\<close>: no node for empty content.\<close>

definition text_nodes :: "jsstring \<Rightarrow> node list" where
  "text_nodes t = (if t = [] then [] else [Text t])"

subsection \<open>The expected dialect\<close>

text \<open>
  The dialect as the specification describes it: a root element \<^verbatim>\<open>editor\<close> whose
  children are \<^verbatim>\<open>language\<close> elements, each with a \<^verbatim>\<open>value\<close> attribute and text
  as its body, decided on the modelled fragment of XML. The code has no such check; the
  definition follows the specification's words and serves to state what
  \<^verbatim>\<open>loadStateFromXmlString\<close> does with other input.
\<close>

fun is_text :: "node \<Rightarrow> bool" where
  "is_text (Text t) = True"
| "is_text (Element n as ks) = False"

fun is_language_entry :: "node \<Rightarrow> bool" where
  "is_language_entry (Element n as ks) =
     (n = js ''language'' \<and> map_of as (js ''value'') \<noteq> None \<and> list_all is_text ks)"
| "is_language_entry (Text t) = False"

definition expected_dialect :: "jsstring \<Rightarrow> bool" where
  "expected_dialect x =
    (case parse_xml x of
       Some (Element n as ks) \<Rightarrow> n = js ''editor'' \<and> list_all is_language_entry ks
     | _ \<Rightarrow> False)"

section \<open>Properties\<close>

subsection \<open>Code units and literals\<close>

lemma cu_unat: "unat (cu c) = of_char c"
proof -
  have "(cu c :: code_unit) = of_nat (of_char c)" by (simp add: of_nat_of_char)
  moreover have "(of_char c :: nat) < 2 ^ 16"
    by (rule order_less_trans [OF nat_of_char_less_256]) simp
  ultimately show ?thesis
    by (simp add: unsigned_of_nat take_bit_nat_eq_self)
qed

lemma cu_inject [simp]: "cu c = cu d \<longleftrightarrow> c = d"
  by (metis cu_unat of_char_eq_iff)

lemma js_inject [simp]: "js a = js b \<longleftrightarrow> a = b"
  by (simp add: js_def inj_map_eq_map inj_on_def)

lemma js_Nil [simp]: "js [] = []"
  by (simp add: js_def)

lemma js_eq_Nil [simp]: "js a = [] \<longleftrightarrow> a = []"
  by (simp add: js_def)

lemma Nil_eq_js [simp]: "[] = js a \<longleftrightarrow> a = []"
  by (simp add: js_def)

lemma js_append: "js (a @ b) = js a @ js b"
  by (simp add: js_def)

lemma js_join: "js a @ js b = js (a @ b)" "js a @ js b @ c = js (a @ b) @ c"
  by (simp_all add: js_def)

subsection \<open>What rendering and listeners leave alone\<close>

lemma getStateAsXmlString_expand:
  \<open>getStateAsXmlString s =
     js ''<editor>'' @
     js ''<language value="python" >'' @ buffer (code s) (js ''python'') @ js ''</language>'' @
     js ''<language value="javascript" >'' @ buffer (code s) (js ''javascript'') @ js ''</language>'' @
     js ''<language value="arduino" >'' @ buffer (code s) (js ''arduino'') @ js ''</language>'' @
     js ''</editor>''\<close>
  by (simp add: getStateAsXmlString_def languages_def join_def buffer_def js_join)

lemma refreshEditor_code [simp]: "code (state_of (refreshEditor arg s)) = code s"
  by (simp add: refreshEditor_def Let_def split: option.splits)

lemma refreshEditor_language [simp]: "language (state_of (refreshEditor arg s)) = language s"
  by (simp add: refreshEditor_def Let_def split: option.splits)

lemma getLanguageAttributes_configured:
  "l \<in> set (map lang_value languages) \<Longrightarrow> \<exists>d. getLanguageAttributes l = Some d \<and> lang_value d = l"
  by (auto simp add: getLanguageAttributes_def languages_def)

lemma configured_nonempty: "l \<in> set (map lang_value languages) \<Longrightarrow> l \<noteq> []"
  by (auto simp add: languages_def)

lemma refreshEditor_returns:
  "getLanguageAttributes (or_else (Some (language s)) (js ''python'')) \<noteq> None
   \<Longrightarrow> refreshEditor None s = Returns (state_of (refreshEditor None s))"
  by (auto simp add: refreshEditor_def Let_def split: option.splits)

lemma perform_fields [simp]:
  "language (perform e s) = language s" "code (perform e s) = code s"
  "invoked (perform e s) = invoked s" "textarea (perform e s) = textarea s"
  "uploaded (perform e s) = uploaded s" "Kalebr (perform e s) = Kalebr s"
  by (cases e; simp add: addChangeListener_def)+

lemma foldl_perform_fields [simp]:
  "language (foldl (\<lambda>s' e. perform e s') s es) = language s"
  "code (foldl (\<lambda>s' e. perform e s') s es) = code s"
  "invoked (foldl (\<lambda>s' e. perform e s') s es) = invoked s"
  "textarea (foldl (\<lambda>s' e. perform e s') s es) = textarea s"
  "uploaded (foldl (\<lambda>s' e. perform e s') s es) = uploaded s"
  "Kalebr (foldl (\<lambda>s' e. perform e s') s es) = Kalebr s"
  by (induction es arbitrary: s; simp)+

lemma call_fields [simp]:
  "language (call f ev s) = language s" "code (call f ev s) = code s"
  "invoked (call f ev s) = invoked s @ [(listener_id f, ev)]" "textarea (call f ev s) = textarea s"
  "uploaded (call f ev s) = uploaded s" "Kalebr (call f ev s) = Kalebr s"
  by (simp_all add: call_def)

lemma fire_loop_fields:
  "language (fire_loop cl i ev s) = language s \<and> code (fire_loop cl i ev s) = code s \<and>
   textarea (fire_loop cl i ev s) = textarea s \<and> uploaded (fire_loop cl i ev s) = uploaded s \<and>
   Kalebr (fire_loop cl i ev s) = Kalebr s"
proof (induction cl i ev s rule: fire_loop.induct)
  case (1 cl i ev s)
  show ?case
  proof (cases "i < length cl")
    case True
    with 1 show ?thesis by (simp add: fire_loop.simps [of cl i])
  next
    case False
    then show ?thesis by (simp add: fire_loop.simps [of cl i])
  qed
qed

lemma fire_loop_invoked:
  "invoked (fire_loop cl i ev s) = invoked s @ map (\<lambda>f. (listener_id f, ev)) (drop i cl)"
proof (induction cl i ev s rule: fire_loop.induct)
  case (1 cl i ev s)
  show ?case
  proof (cases "i < length cl")
    case True
    with 1 show ?thesis
      by (simp add: fire_loop.simps [of cl i] Cons_nth_drop_Suc [symmetric])
  next
    case False
    then show ?thesis by (simp add: fire_loop.simps [of cl i])
  qed
qed

lemma fireChangeListener_fields [simp]:
  "language (fireChangeListener ev s) = language s" "code (fireChangeListener ev s) = code s"
  "textarea (fireChangeListener ev s) = textarea s" "uploaded (fireChangeListener ev s) = uploaded s"
  "Kalebr (fireChangeListener ev s) = Kalebr s"
  by (simp_all add: fireChangeListener_def fire_loop_fields)

subsection \<open>Language selection\<close>

text \<open>
  Claim C8. For every configured language identifier \<^verbatim>\<open>L\<close>, \<^verbatim>\<open>changeLanguage(L)\<close>
  returns, and \<^verbatim>\<open>getSelectedLanguage()\<close> then returns \<^verbatim>\<open>L\<close>, from every state of the
  editor and whatever the registered listeners do to the listener list.
\<close>

theorem changeLanguage_selects:
  assumes "l \<in> set (map lang_value languages)"
  shows "\<exists>s'. changeLanguage l s = Returns s' \<and> getSelectedLanguage s' = l"
proof -
  from assms obtain d where d: "getLanguageAttributes l = Some d"
    using getLanguageAttributes_configured by blast
  from assms have ne: "l \<noteq> []" by (rule configured_nonempty)
  from d ne show ?thesis
    by (simp add: changeLanguage_def refreshEditor_def or_else_def getSelectedLanguage_def
        updatePushButtonStatus_def disablePushButton_def)
qed

theorem changeLanguage_selects_witness:
  "js ''blockly'' \<in> set (map lang_value languages) \<and>
   (\<exists>s'. changeLanguage (js ''blockly'') (new_editor) = Returns s' \<and>
         getSelectedLanguage s' = js ''blockly'')"
proof -
  have h: "js ''blockly'' \<in> set (map lang_value languages)"
    by (simp add: languages_def)
  from changeLanguage_selects [OF h, of "new_editor"] h
  show ?thesis by blast
qed

subsection \<open>The constructed editor\<close>

lemma CodeEditor_returns:
  "CodeEditor flask k = Returns
     \<lparr>language = js ''python'', code = Map.empty, listeners = [], flask_update = flask,
      flask_language = js ''python'', textarea = flask [], onUpdate_language = js ''python'',
      textarea_readOnly = False, push_disabled = False, Kalebr = k,
      uploaded = [], saved = [], invoked = []\<rparr>"
  by (simp add: CodeEditor_def refreshEditor_def or_else_def getLanguageAttributes_def languages_def Let_def)

lemma new_editor_fields:
  "new_editor =
     \<lparr>language = js ''python'', code = Map.empty, listeners = [], flask_update = plain_textarea,
      flask_language = js ''python'', textarea = [], onUpdate_language = js ''python'',
      textarea_readOnly = False, push_disabled = False, Kalebr = WithConsole,
      uploaded = [], saved = [], invoked = []\<rparr>"
  by (simp add: new_editor_def CodeEditor_returns plain_textarea_def)

subsection \<open>The serialized state\<close>

text \<open>
  Claim C2, as the code has it. \<^verbatim>\<open>getStateAsXmlString\<close> returns \<^verbatim>\<open><editor>\<close>, then for
  each configured language except \<^verbatim>\<open>blockly\<close>, in the configured order, exactly
  \<^verbatim>\<open><language value="LANG_ID" >RAW_CODE_TEXT</language>\<close> with the buffer's text verbatim,
  then \<^verbatim>\<open></editor>\<close>, and nothing else. The start tag the code writes has a space
  between the closing quote of the attribute and \<^verbatim>\<open>>\<close>.
\<close>

theorem getStateAsXmlString_format:
  \<open>getStateAsXmlString s =
     js ''<editor>'' @
     concat (map (\<lambda>l. js ''<language value="'' @ l @ js ''" >'' @ buffer (code s) l @ js ''</language>'')
       (filter (\<lambda>l. l \<noteq> js ''blockly'') (map lang_value languages))) @
     js ''</editor>''\<close>
  by (simp add: getStateAsXmlString_def languages_def join_def buffer_def js_join)

theorem getStateAsXmlString_format_witness:
  \<open>getStateAsXmlString (addCodeToEditor (js ''x=1'') (js ''python'') (new_editor)) =
     js ''<editor><language value="python" >x=1</language><language value="javascript" ></language><language value="arduino" ></language></editor>''\<close>
  using getStateAsXmlString_format [of "addCodeToEditor (js ''x=1'') (js ''python'') (new_editor)"]
  by (simp add: languages_def buffer_def or_else_def addCodeToEditor_def put_def new_editor_fields js_join)

text \<open>
  Claim C2 as stated asks for \<^verbatim>\<open><language value="LANG_ID">\<close> without that space, bit for
  bit. For the editor holding \<^verbatim>\<open>x=1\<close> as its python buffer the string of the
  specification and the string of the code differ.
\<close>

theorem getStateAsXmlString_format_counterexample:
  \<open>spec_state_string (code (addCodeToEditor (js ''x=1'') (js ''python'') (new_editor))) =
     js ''<editor><language value="python">x=1</language><language value="javascript"></language><language value="arduino"></language></editor>'' \<and>
   getStateAsXmlString (addCodeToEditor (js ''x=1'') (js ''python'') (new_editor)) \<noteq>
     spec_state_string (code (addCodeToEditor (js ''x=1'') (js ''python'') (new_editor)))\<close>
  by (simp add: getStateAsXmlString_expand spec_state_string_def spec_language_element_def
      languages_def buffer_def or_else_def addCodeToEditor_def put_def new_editor_fields js_join)

subsection \<open>Clearing\<close>

lemma clear_code [simp]: "code (state_of (clear s)) = Map.empty"
  by (simp add: clear_def)

lemma clear_returns:
  assumes "language s \<in> set (map lang_value languages)"
  shows "clear s = Returns (state_of (clear s))"
proof -
  from assms have "language s \<noteq> []" by (rule configured_nonempty)
  moreover from assms obtain d where "getLanguageAttributes (language s) = Some d"
    using getLanguageAttributes_configured by blast
  ultimately show ?thesis
    unfolding clear_def by (intro refreshEditor_returns) (simp add: or_else_def)
qed

lemma cleared_string:
  \<open>code s = Map.empty \<Longrightarrow> getStateAsXmlString s =
    js ''<editor><language value="python" ></language><language value="javascript" ></language><language value="arduino" ></language></editor>''\<close>
  by (simp add: getStateAsXmlString_expand buffer_def or_else_def js_join)

lemma parse_cleared:
  \<open>parse_xml (js ''<editor><language value="python" ></language><language value="javascript" ></language><language value="arduino" ></language></editor>'') =
     Some (Element (js ''editor'') []
       [Element (js ''language'') [(js ''value'', js ''python'')] [],
        Element (js ''language'') [(js ''value'', js ''javascript'')] [],
        Element (js ''language'') [(js ''value'', js ''arduino'')] []])\<close>
  by code_simp

text \<open>
  Claim C9. After \<^verbatim>\<open>clear()\<close>, from any state, \<^verbatim>\<open>getStateAsXmlString()\<close> is the
  \<^verbatim>\<open>editor\<close> element with one \<^verbatim>\<open>language\<close> element for python, javascript and
  arduino, each with an empty body: the string is given, and parsing it, in any browser,
  yields three \<^verbatim>\<open>language\<close> elements whose bodies are empty. \<^verbatim>\<open>clear()\<close> returns whenever the
  active language is a configured one (and has emptied the buffers even when it throws).
\<close>

theorem clear_then_getStateAsXmlString:
  \<open>getStateAsXmlString (state_of (clear s)) =
     js ''<editor><language value="python" ></language><language value="javascript" ></language><language value="arduino" ></language></editor>'' \<and>
   map innerHTML (getElementsByTagName (js ''language'')
     (parseFromString browser (getStateAsXmlString (state_of (clear s))))) = [[], [], []] \<and>
   (language s \<in> set (map lang_value languages) \<longrightarrow> clear s = Returns (state_of (clear s)))\<close>
proof -
  let ?out = \<open>js ''<editor><language value="python" ></language><language value="javascript" ></language><language value="arduino" ></language></editor>''\<close>
  have a: "getStateAsXmlString (state_of (clear s)) = ?out"
    by (rule cleared_string) (rule clear_code)
  have b: "map innerHTML (getElementsByTagName (js ''language'') (parseFromString browser ?out)) = [[], [], []]"
    unfolding parseFromString_def parse_cleared by simp
  show ?thesis
  proof (intro conjI)
    show "getStateAsXmlString (state_of (clear s)) = ?out" by (rule a)
    show "map innerHTML (getElementsByTagName (js ''language'')
      (parseFromString browser (getStateAsXmlString (state_of (clear s))))) = [[], [], []]"
      unfolding a by (rule b)
    show "language s \<in> set (map lang_value languages) \<longrightarrow> clear s = Returns (state_of (clear s))"
      using clear_returns by blast
  qed
qed

theorem clear_then_getStateAsXmlString_witness:
  \<open>language (addCodeToEditor (js ''x=1'') (js ''python'') (new_editor)) \<in> set (map lang_value languages) \<and>
   clear (addCodeToEditor (js ''x=1'') (js ''python'') (new_editor)) =
     Returns (state_of (clear (addCodeToEditor (js ''x=1'') (js ''python'') (new_editor)))) \<and>
   getStateAsXmlString (state_of (clear (addCodeToEditor (js ''x=1'') (js ''python'') (new_editor)))) =
     js ''<editor><language value="python" ></language><language value="javascript" ></language><language value="arduino" ></language></editor>''\<close>
proof -
  have h: "language (addCodeToEditor (js ''x=1'') (js ''python'') (new_editor)) \<in> set (map lang_value languages)"
    by (simp add: addCodeToEditor_def new_editor_fields languages_def)
  from clear_then_getStateAsXmlString [of "addCodeToEditor (js ''x=1'') (js ''python'') (new_editor)"] h
  show ?thesis by blast
qed

subsection \<open>What the serialized state depends on\<close>

lemma buffer_put_other: "k \<noteq> l \<Longrightarrow> buffer (put m k v) l = buffer m l"
  by (simp add: buffer_def put_def)

lemma load_loop_other:
  "list_all (\<lambda>e. key_of (getAttribute e (js ''value'')) \<noteq> l) es \<Longrightarrow> load_loop es m l = m l"
  by (induction es arbitrary: m) (auto simp add: put_def)

lemma getStateAsXmlString_cong:
  assumes "buffer (code s) (js ''python'') = buffer (code t) (js ''python'')"
    and "buffer (code s) (js ''javascript'') = buffer (code t) (js ''javascript'')"
    and "buffer (code s) (js ''arduino'') = buffer (code t) (js ''arduino'')"
  shows "getStateAsXmlString s = getStateAsXmlString t"
  unfolding getStateAsXmlString_expand using assms by simp

lemma loadStateFromXml_code [simp]:
  "code (state_of (loadStateFromXml xml s)) = load_loop (getElementsByTagName (js ''language'') xml) (code s)"
  by (simp add: loadStateFromXml_def)

text \<open>
  Claim C10. The output of \<^verbatim>\<open>getStateAsXmlString\<close> is determined by the buffers of
  python, javascript and arduino alone and lists them in that order: two editors that agree
  on these three buffers serialize to the same string; storing code under any other key
  with \<^verbatim>\<open>addCodeToEditor\<close>, or loading a document whose \<^verbatim>\<open>language\<close> elements all
  carry other identifiers, leaves the serialized string as it was.
\<close>

theorem getStateAsXmlString_only_configured:
  \<open>(buffer (code s) (js ''python'') = buffer (code t) (js ''python'') \<and>
    buffer (code s) (js ''javascript'') = buffer (code t) (js ''javascript'') \<and>
    buffer (code s) (js ''arduino'') = buffer (code t) (js ''arduino'')
      \<longrightarrow> getStateAsXmlString s = getStateAsXmlString t) \<and>
   (k \<notin> {js ''python'', js ''javascript'', js ''arduino''}
      \<longrightarrow> getStateAsXmlString (addCodeToEditor c k s) = getStateAsXmlString s) \<and>
   (list_all (\<lambda>e. key_of (getAttribute e (js ''value'')) \<notin> {js ''python'', js ''javascript'', js ''arduino''})
        (getElementsByTagName (js ''language'') xml)
      \<longrightarrow> getStateAsXmlString (state_of (loadStateFromXml xml s)) = getStateAsXmlString s) \<and>
   getStateAsXmlString s =
     js ''<editor>'' @
     js ''<language value="python" >'' @ buffer (code s) (js ''python'') @ js ''</language>'' @
     js ''<language value="javascript" >'' @ buffer (code s) (js ''javascript'') @ js ''</language>'' @
     js ''<language value="arduino" >'' @ buffer (code s) (js ''arduino'') @ js ''</language>'' @
     js ''</editor>''\<close>
proof (intro conjI impI)
  assume "buffer (code s) (js ''python'') = buffer (code t) (js ''python'') \<and>
    buffer (code s) (js ''javascript'') = buffer (code t) (js ''javascript'') \<and>
    buffer (code s) (js ''arduino'') = buffer (code t) (js ''arduino'')"
  then show "getStateAsXmlString s = getStateAsXmlString t"
    by (intro getStateAsXmlString_cong) simp_all
next
  assume k: "k \<notin> {js ''python'', js ''javascript'', js ''arduino''}"
  then have "buffer (code (addCodeToEditor c k s)) l = buffer (code s) l"
    if "l \<in> {js ''python'', js ''javascript'', js ''arduino''}" for l
    using that by (auto simp add: addCodeToEditor_def buffer_put_other)
  then show "getStateAsXmlString (addCodeToEditor c k s) = getStateAsXmlString s"
    by (intro getStateAsXmlString_cong) simp_all
next
  assume "list_all (\<lambda>e. key_of (getAttribute e (js ''value'')) \<notin> {js ''python'', js ''javascript'', js ''arduino''})
    (getElementsByTagName (js ''language'') xml)"
  then have "list_all (\<lambda>e. key_of (getAttribute e (js ''value'')) \<noteq> l) (getElementsByTagName (js ''language'') xml)"
    if "l \<in> {js ''python'', js ''javascript'', js ''arduino''}" for l
    using that by (auto simp add: list_all_iff)
  then have "buffer (code (state_of (loadStateFromXml xml s))) l = buffer (code s) l"
    if "l \<in> {js ''python'', js ''javascript'', js ''arduino''}" for l
    using that by (simp add: buffer_def load_loop_other)
  then show "getStateAsXmlString (state_of (loadStateFromXml xml s)) = getStateAsXmlString s"
    by (intro getStateAsXmlString_cong) simp_all
next
  show \<open>getStateAsXmlString s =
     js ''<editor>'' @
     js ''<language value="python" >'' @ buffer (code s) (js ''python'') @ js ''</language>'' @
     js ''<language value="javascript" >'' @ buffer (code s) (js ''javascript'') @ js ''</language>'' @
     js ''<language value="arduino" >'' @ buffer (code s) (js ''arduino'') @ js ''</language>'' @
     js ''</editor>''\<close>
    by (rule getStateAsXmlString_expand)
qed

theorem getStateAsXmlString_only_configured_witness:
  \<open>getStateAsXmlString (addCodeToEditor (js ''10 PRINT'') (js ''basic'') (new_editor)) =
     getStateAsXmlString (new_editor) \<and>
   getStateAsXmlString (state_of (loadStateFromXml
       (Document (Element (js ''editor'') [] [Element (js ''language'') [(js ''value'', js ''basic'')] [Text (js ''10 PRINT'')]]))
       (new_editor))) =
     getStateAsXmlString (new_editor) \<and>
   code (state_of (loadStateFromXml
       (Document (Element (js ''editor'') [] [Element (js ''language'') [(js ''value'', js ''basic'')] [Text (js ''10 PRINT'')]]))
       (new_editor))) (js ''basic'') = Some (js ''10 PRINT'') \<and>
   getStateAsXmlString (new_editor) =
     js ''<editor><language value="python" ></language><language value="javascript" ></language><language value="arduino" ></language></editor>''\<close>
proof -
  let ?s = "new_editor"
  let ?d = "Document (Element (js ''editor'') [] [Element (js ''language'') [(js ''value'', js ''basic'')] [Text (js ''10 PRINT'')]])"
  have k: "js ''basic'' \<notin> {js ''python'', js ''javascript'', js ''arduino''}" by simp
  have d: "list_all (\<lambda>e. key_of (getAttribute e (js ''value'')) \<notin> {js ''python'', js ''javascript'', js ''arduino''})
      (getElementsByTagName (js ''language'') ?d)"
    by (simp add: key_of_def)
  have t: "escape_text (js ''10 PRINT'') = js ''10 PRINT''" by code_simp
  have e: "code (state_of (loadStateFromXml ?d ?s)) (js ''basic'') = Some (js ''10 PRINT'')"
    by (simp add: key_of_def put_def t)
  have f: "buffer (code ?s) l = []" for l
    by (simp add: new_editor_fields buffer_def or_else_def)
  from getStateAsXmlString_only_configured [of ?s ?s "js ''basic''" "js ''10 PRINT''" ?d] k d e
  show ?thesis by (simp only: f simp_thms append.simps js_join)
qed

subsection \<open>Saving\<close>

lemma index_of_key_configured: "l \<in> set (map lang_value languages) \<Longrightarrow> index_of_key l = None"
  by (auto simp add: languages_def index_of_key_def js_def)

text \<open>
  Claim C3 asks that \<^verbatim>\<open>saveCode("proj")\<close> with the active language javascript calls
  \<^verbatim>\<open>saveAs\<close> with the file name \<^verbatim>\<open>proj.js\<close>. The code looks the descriptor up with
  \<^verbatim>\<open>this.languages[this.language]\<close>, an array indexed by the identifier, which is
  \<^verbatim>\<open>undefined\<close>: with any configured language active, \<^verbatim>\<open>saveCode\<close> throws a
  \<^verbatim>\<open>TypeError\<close> and \<^verbatim>\<open>saveAs\<close> is never called.
\<close>

theorem saveCode_throws:
  assumes "language s \<in> set (map lang_value languages)"
  shows "saveCode fileName s = Throws TypeError s"
  using index_of_key_configured [OF assms] by (simp add: saveCode_def element_at_def)

lemma changeLanguage_javascript:
  "changeLanguage (js ''javascript'') new_editor = Returns
     \<lparr>language = js ''javascript'', code = Map.empty, listeners = [], flask_update = plain_textarea,
      flask_language = js ''javascript'', textarea = [], onUpdate_language = js ''javascript'',
      textarea_readOnly = False, push_disabled = True, Kalebr = WithConsole,
      uploaded = [], saved = [], invoked = []\<rparr>"
  by (simp add: new_editor_fields plain_textarea_def changeLanguage_def refreshEditor_def or_else_def
      getLanguageAttributes_def languages_def Let_def updatePushButtonStatus_def
      disablePushButton_def fireChangeListener_def fire_loop.simps)

theorem saveCode_throws_witness:
  "language (state_of (changeLanguage (js ''javascript'') (new_editor))) = js ''javascript'' \<and>
   saveCode (js ''proj'') (state_of (changeLanguage (js ''javascript'') (new_editor))) =
     Throws TypeError (state_of (changeLanguage (js ''javascript'') (new_editor))) \<and>
   saved (state_of (saveCode (js ''proj'') (state_of (changeLanguage (js ''javascript'') (new_editor))))) = []"
proof -
  let ?s = "state_of (changeLanguage (js ''javascript'') (new_editor))"
  have l: "language ?s = js ''javascript''" by (simp add: changeLanguage_javascript)
  have h: "language ?s \<in> set (map lang_value languages)"
    unfolding l by (simp add: languages_def)
  have e: "saved ?s = []" by (simp add: changeLanguage_javascript)
  from saveCode_throws [OF h, of "js ''proj''"] l e show ?thesis by simp
qed

subsection \<open>Pushing\<close>

lemma changeLanguage_python_textarea:
  "textarea (state_of (changeLanguage (js ''python'') s)) = flask_update s (buffer (code s) (js ''python''))"
  by (simp add: changeLanguage_def refreshEditor_def or_else_def getLanguageAttributes_def
      languages_def Let_def updatePushButtonStatus_def disablePushButton_def buffer_def)





subsection \<open>Firing change events\<close>

lemma addChangeListener_all:
  "listeners (foldl (\<lambda>s' f. snd (addChangeListener f s')) s fs) = listeners s @ fs"
  by (induction fs arbitrary: s) (simp_all add: addChangeListener_def)

text \<open>
  Claim C7. \<^verbatim>\<open>fireChangeListener\<close> calls exactly the listeners that are registered when
  the firing starts, each once for each registration, in registration order, whatever the
  listeners register or unregister while they run: the calls made by the firing are the
  list of listeners at its start, and listeners added with \<^verbatim>\<open>addChangeListener\<close> are at
  the end of that list in the order of the calls.
\<close>

theorem fireChangeListener_snapshot:
  "invoked (fireChangeListener ev s) = invoked s @ map (\<lambda>f. (listener_id f, ev)) (listeners s) \<and>
   invoked (fireChangeListener ev (foldl (\<lambda>s' f. snd (addChangeListener f s')) s fs)) =
     invoked s @ map (\<lambda>f. (listener_id f, ev)) (listeners s @ fs)"
proof -
  have a: "invoked (fireChangeListener ev t) = invoked t @ map (\<lambda>f. (listener_id f, ev)) (listeners t)" for t
    by (simp add: fireChangeListener_def fire_loop_invoked)
  have b: "invoked (foldl (\<lambda>s' f. snd (addChangeListener f s')) s fs) = invoked s"
    by (induction fs arbitrary: s) (simp_all add: addChangeListener_def)
  show ?thesis
    by (simp only: a b addChangeListener_all simp_thms)
qed

theorem fireChangeListener_snapshot_witness:
  "invoked (fireChangeListener CODE_UPDATED
     (foldl (\<lambda>s' f. snd (addChangeListener f s')) (new_editor)
        [Listener 1 [Register (Listener 3 []), Unregister 2], Listener 2 []])) =
     [(1, CODE_UPDATED), (2, CODE_UPDATED)] \<and>
   listeners (fireChangeListener CODE_UPDATED
     (foldl (\<lambda>s' f. snd (addChangeListener f s')) (new_editor)
        [Listener 1 [Register (Listener 3 []), Unregister 2], Listener 2 []])) =
     [Listener 1 [Register (Listener 3 []), Unregister 2], Listener 3 []]"
proof -
  let ?s = "new_editor"
  let ?fs = "[Listener 1 [Register (Listener 3 []), Unregister 2], Listener 2 []]"
  have 1: "invoked ?s = []" "listeners ?s = []" by (simp_all add: new_editor_fields)
  have 2: "listeners (fireChangeListener CODE_UPDATED (foldl (\<lambda>s' f. snd (addChangeListener f s')) ?s ?fs)) =
     [Listener 1 [Register (Listener 3 []), Unregister 2], Listener 3 []]"
    by (simp add: new_editor_fields addChangeListener_def fireChangeListener_def fire_loop.simps call_def)
  from fireChangeListener_snapshot [of CODE_UPDATED ?s ?fs] 1 2 show ?thesis by simp
qed

subsection \<open>Loading a document\<close>

lemma load_loop_proto: "load_loop es m (js ''__proto__'') = m (js ''__proto__'')"
  by (induction es arbitrary: m) (simp_all add: put_def)

lemma load_loop_last:
  "k \<noteq> js ''__proto__'' \<Longrightarrow>
   load_loop es m k =
     (case filter (\<lambda>e. key_of (getAttribute e (js ''value'')) = k) (rev es) of
        [] \<Rightarrow> m k
      | e # _ \<Rightarrow> Some (innerHTML e))"
  by (induction es arbitrary: m) (auto simp add: put_def split: list.splits)

lemma filter_unique:
  "distinct (map f xs) \<Longrightarrow> x \<in> set xs \<Longrightarrow> filter (\<lambda>y. f y = f x) xs = [x]"
proof (induction xs)
  case Nil
  then show ?case by simp
next
  case (Cons a xs)
  show ?case
  proof (cases "a = x")
    case True
    from Cons.prems have "f a \<notin> f ` set xs" by simp
    with True have "\<And>y. y \<in> set xs \<Longrightarrow> f y \<noteq> f x" by (metis imageI)
    then have "filter (\<lambda>y. f y = f x) xs = []" by (simp add: filter_empty_conv)
    with True show ?thesis by simp
  next
    case False
    with Cons.prems have "x \<in> set xs" "f a \<noteq> f x" "distinct (map f xs)" by auto
    with Cons.IH show ?thesis by simp
  qed
qed

lemma load_loop_distinct:
  assumes "distinct (map (\<lambda>e. key_of (getAttribute e (js ''value''))) es)"
    and "e \<in> set es" and "key_of (getAttribute e (js ''value'')) \<noteq> js ''__proto__''"
  shows "load_loop es m (key_of (getAttribute e (js ''value''))) = Some (innerHTML e)"
proof -
  from assms(1) have "distinct (map (\<lambda>e. key_of (getAttribute e (js ''value''))) (rev es))"
    by (simp add: rev_map [symmetric])
  moreover from assms(2) have "e \<in> set (rev es)" by simp
  ultimately have "filter (\<lambda>y. key_of (getAttribute y (js ''value'')) = key_of (getAttribute e (js ''value''))) (rev es) = [e]"
    by (rule filter_unique)
  with assms(3) show ?thesis by (simp add: load_loop_last)
qed

lemma load_loop_order:
  assumes "distinct (map (\<lambda>e. key_of (getAttribute e (js ''value''))) es1)"
    and "distinct (map (\<lambda>e. key_of (getAttribute e (js ''value''))) es2)"
    and "set es1 = set es2"
  shows "load_loop es1 m = load_loop es2 m"
proof
  fix k
  show "load_loop es1 m k = load_loop es2 m k"
  proof (cases "k = js ''__proto__''")
    case True
    then show ?thesis by (simp add: load_loop_proto)
  next
    case False
    show ?thesis
    proof (cases "\<exists>e\<in>set es1. key_of (getAttribute e (js ''value'')) = k")
      case True
      then obtain e where e: "e \<in> set es1" "key_of (getAttribute e (js ''value'')) = k" by blast
      with False assms show ?thesis
        using load_loop_distinct [of es1 e m] load_loop_distinct [of es2 e m] by simp
    next
      case no: False
      then have "list_all (\<lambda>e. key_of (getAttribute e (js ''value'')) \<noteq> k) es1"
        by (simp add: list_all_iff)
      moreover from no assms(3) have "list_all (\<lambda>e. key_of (getAttribute e (js ''value'')) \<noteq> k) es2"
        by (simp add: list_all_iff)
      ultimately show ?thesis by (simp add: load_loop_other)
    qed
  qed
qed

text \<open>
  Claim C6, as the code has it. \<^verbatim>\<open>loadStateFromXml\<close> reads every \<^verbatim>\<open>language\<close> element
  of the document, wherever it stands and in whatever order, and stores the body of each
  (its \<^verbatim>\<open>innerHTML\<close>) under its \<^verbatim>\<open>value\<close> attribute, configured or not, with one
  exception: nothing is stored under the identifier \<^verbatim>\<open>__proto__\<close>. For every other key
  the entry after the load is the body of the last \<^verbatim>\<open>language\<close> element with that
  identifier, and the entry before the load when there is none (an element without the
  attribute counts under the key \<^verbatim>\<open>null\<close>). When the identifiers are distinct, each
  element's body is there after the load, and two documents with the same elements in
  different orders give the same buffers.
\<close>

theorem loadStateFromXml_stores:
  "(k \<noteq> js ''__proto__'' \<longrightarrow>
      code (state_of (loadStateFromXml xml s)) k =
        (case filter (\<lambda>e. key_of (getAttribute e (js ''value'')) = k)
                (rev (getElementsByTagName (js ''language'') xml)) of
           [] \<Rightarrow> code s k
         | e # _ \<Rightarrow> Some (innerHTML e))) \<and>
   code (state_of (loadStateFromXml xml s)) (js ''__proto__'') = code s (js ''__proto__'') \<and>
   (distinct (map (\<lambda>e. key_of (getAttribute e (js ''value''))) (getElementsByTagName (js ''language'') xml)) \<and>
    e \<in> set (getElementsByTagName (js ''language'') xml) \<and>
    key_of (getAttribute e (js ''value'')) \<noteq> js ''__proto__'' \<longrightarrow>
      code (state_of (loadStateFromXml xml s)) (key_of (getAttribute e (js ''value''))) = Some (innerHTML e)) \<and>
   (distinct (map (\<lambda>e. key_of (getAttribute e (js ''value''))) (getElementsByTagName (js ''language'') xml)) \<and>
    distinct (map (\<lambda>e. key_of (getAttribute e (js ''value''))) (getElementsByTagName (js ''language'') xml')) \<and>
    set (getElementsByTagName (js ''language'') xml) = set (getElementsByTagName (js ''language'') xml') \<longrightarrow>
      code (state_of (loadStateFromXml xml s)) = code (state_of (loadStateFromXml xml' s)))"
proof (intro conjI impI)
  assume "k \<noteq> js ''__proto__''"
  then show "code (state_of (loadStateFromXml xml s)) k =
        (case filter (\<lambda>e. key_of (getAttribute e (js ''value'')) = k)
                (rev (getElementsByTagName (js ''language'') xml)) of
           [] \<Rightarrow> code s k
         | e # _ \<Rightarrow> Some (innerHTML e))"
    by (simp add: load_loop_last)
next
  show "code (state_of (loadStateFromXml xml s)) (js ''__proto__'') = code s (js ''__proto__'')"
    by (simp add: load_loop_proto)
next
  assume "distinct (map (\<lambda>e. key_of (getAttribute e (js ''value''))) (getElementsByTagName (js ''language'') xml)) \<and>
    e \<in> set (getElementsByTagName (js ''language'') xml) \<and>
    key_of (getAttribute e (js ''value'')) \<noteq> js ''__proto__''"
  then show "code (state_of (loadStateFromXml xml s)) (key_of (getAttribute e (js ''value''))) = Some (innerHTML e)"
    unfolding loadStateFromXml_code by (intro load_loop_distinct) simp_all
next
  assume "distinct (map (\<lambda>e. key_of (getAttribute e (js ''value''))) (getElementsByTagName (js ''language'') xml)) \<and>
    distinct (map (\<lambda>e. key_of (getAttribute e (js ''value''))) (getElementsByTagName (js ''language'') xml')) \<and>
    set (getElementsByTagName (js ''language'') xml) = set (getElementsByTagName (js ''language'') xml')"
  then show "code (state_of (loadStateFromXml xml s)) = code (state_of (loadStateFromXml xml' s))"
    unfolding loadStateFromXml_code by (intro load_loop_order) simp_all
qed


theorem loadStateFromXml_stores_witness:
  "code (state_of (loadStateFromXml
      (Document (Element (js ''saved'') []
         [Element (js ''language'') [(js ''value'', js ''cobol'')] [Text (js ''MOVE A TO B'')],
          Element (js ''group'') [] [Element (js ''language'') [(js ''value'', js ''python'')] [Text (js ''x=1'')]],
          Element (js ''language'') [] [Text (js ''untitled'')]]))
      (new_editor))) =
   [js ''cobol'' \<mapsto> js ''MOVE A TO B'', js ''python'' \<mapsto> js ''x=1'', js ''null'' \<mapsto> js ''untitled'']"
proof -
  let ?c = "Element (js ''language'') [(js ''value'', js ''cobol'')] [Text (js ''MOVE A TO B'')]"
  let ?p = "Element (js ''language'') [(js ''value'', js ''python'')] [Text (js ''x=1'')]"
  let ?n = "Element (js ''language'') [] [Text (js ''untitled'')]"
  let ?xml = "Document (Element (js ''saved'') [] [?c, Element (js ''group'') [] [?p], ?n])"
  let ?s = "new_editor"
  have es: "getElementsByTagName (js ''language'') ?xml = [?c, ?p, ?n]" by simp
  have t: "escape_text (js ''MOVE A TO B'') = js ''MOVE A TO B''" "escape_text (js ''x=1'') = js ''x=1''"
    "escape_text (js ''untitled'') = js ''untitled''" by code_simp+
  show ?thesis
  proof
    fix k
    from loadStateFromXml_stores [of k ?xml ?s ?c ?xml]
    show "code (state_of (loadStateFromXml ?xml ?s)) k =
      [js ''cobol'' \<mapsto> js ''MOVE A TO B'', js ''python'' \<mapsto> js ''x=1'', js ''null'' \<mapsto> js ''untitled''] k"
      unfolding es by (cases "k = js ''__proto__''") (auto simp add: key_of_def t new_editor_fields)
  qed
qed

text \<open>
  Claim C6 as stated stores the body under any identifier. For an element with
  \<^verbatim>\<open>value="__proto__"\<close> the assignment \<^verbatim>\<open>this.code[language] = code\<close> runs the
  \<^verbatim>\<open>__proto__\<close> setter of \<^verbatim>\<open>Object.prototype\<close> with a string, which does nothing: the
  body is not stored.
\<close>

theorem loadStateFromXml_stores_counterexample:
  "getElementsByTagName (js ''language'')
     (Document (Element (js ''editor'') [] [Element (js ''language'') [(js ''value'', js ''__proto__'')] [Text (js ''x=1'')]])) =
     [Element (js ''language'') [(js ''value'', js ''__proto__'')] [Text (js ''x=1'')]] \<and>
   getAttribute (Element (js ''language'') [(js ''value'', js ''__proto__'')] [Text (js ''x=1'')]) (js ''value'') = Some (js ''__proto__'') \<and>
   innerHTML (Element (js ''language'') [(js ''value'', js ''__proto__'')] [Text (js ''x=1'')]) = js ''x=1'' \<and>
   code (state_of (loadStateFromXml
     (Document (Element (js ''editor'') [] [Element (js ''language'') [(js ''value'', js ''__proto__'')] [Text (js ''x=1'')]]))
     (new_editor))) (js ''__proto__'') \<noteq> Some (js ''x=1'')"
proof -
  have t: "escape_text (js ''x=1'') = js ''x=1''" by code_simp
  show ?thesis by (simp add: key_of_def put_def t new_editor_fields)
qed

subsection \<open>Parsing the serialized state\<close>

text \<open>The equations that run the parser on a given code unit.\<close>

lemmas step_defs = step_def
  step_content_def step_lt_def step_stagname_def step_intag_def step_attrname_def
  step_attreq_def step_attrquote_def step_attrvalue_def step_afterattr_def step_slash_def
  step_etagname_def step_etagend_def step_ref_def step_attrref_def flush_def attach_def
  open_element_def close_element_def empty_element_def end_attr_def stop_def
  is_space_def name_start_def name_char_def

lemma bmp_not_high: "bmp_xml_char c \<Longrightarrow> \<not> high_surrogate c"
  unfolding bmp_xml_char_def high_surrogate_def
  by (auto simp add: word_le_nat_alt cu_unat)

lemma xml_chars_append: "xml_chars a \<Longrightarrow> xml_chars b \<Longrightarrow> xml_chars (a @ b)"
proof (induction a rule: xml_chars.induct)
  case 1
  then show ?case by simp
next
  case (2 c)
  then show ?case by (cases b) (simp_all add: bmp_not_high)
next
  case (3 c d cs)
  then show ?case by (cases "high_surrogate c") simp_all
qed

lemma plain_no_cr: "list_all markup_free t \<Longrightarrow> cu (CHR 0x0D) \<notin> set t"
  by (induction t) (auto simp add: markup_free_def)

lemma normalize_eol_id: "cu (CHR 0x0D) \<notin> set x \<Longrightarrow> normalize_eol x = x"
  by (induction x rule: normalize_eol.induct) auto

lemma escape_plain: "list_all markup_free t \<Longrightarrow> escape_text t = t"
  by (induction t) (auto simp add: markup_free_def escape_text_def)

lemma content_plain:
  "pmode st = Content \<Longrightarrow> opened st \<noteq> [] \<Longrightarrow> list_all markup_free t \<Longrightarrow>
   foldl step st t = st\<lparr>pending := pending st @ t\<rparr>"
proof (induction t arbitrary: st)
  case Nil
  then show ?case by simp
next
  case (Cons c t)
  from Cons.prems have c: "c \<noteq> cu CHR ''<''" "c \<noteq> cu CHR ''&''" "c \<noteq> cu CHR ''>''"
    by (simp_all add: markup_free_def)
  from Cons.prems have t: "list_all markup_free t" by simp
  from Cons.prems c have s: "step st c = st\<lparr>pending := pending st @ [c]\<rparr>"
    by (simp add: step_def step_content_def)
  from Cons.prems have "pmode (st\<lparr>pending := pending st @ [c]\<rparr>) = Content"
    "opened (st\<lparr>pending := pending st @ [c]\<rparr>) \<noteq> []" by simp_all
  from Cons.IH [OF this t] s show ?case by simp
qed

lemma attrvalue_plain:
  "pmode st = AttrValue n as a (cu (CHR 0x22)) v \<Longrightarrow> list_all attr_plain l \<Longrightarrow>
   foldl step st l = st\<lparr>pmode := AttrValue n as a (cu (CHR 0x22)) (v @ l)\<rparr>"
proof (induction l arbitrary: st v)
  case Nil
  then show ?case by simp
next
  case (Cons c l)
  from Cons.prems have "step st c = st\<lparr>pmode := AttrValue n as a (cu (CHR 0x22)) (v @ [c])\<rparr>"
    by (auto simp add: step_def step_attrvalue_def attr_plain_def is_space_def js_def)
  moreover from Cons.prems
  have "foldl step (st\<lparr>pmode := AttrValue n as a (cu (CHR 0x22)) (v @ [c])\<rparr>) l =
    st\<lparr>pmode := AttrValue n as a (cu (CHR 0x22)) (v @ [c]), pmode := AttrValue n as a (cu (CHR 0x22)) ((v @ [c]) @ l)\<rparr>"
    by (intro Cons.IH) simp_all
  ultimately show ?case by simp
qed

lemma language_element:
  assumes "list_all markup_free t" and "list_all attr_plain l"
  shows \<open>foldl step \<lparr>pmode = Content, opened = [(js ''editor'', [], ks)], pending = [], root = None\<rparr>
           (js ''<language value="'' @ l @ js ''" >'' @ t @ js ''</language>'') =
         \<lparr>pmode = Content,
          opened = [(js ''editor'', [], ks @ [Element (js ''language'') [(js ''value'', l)] (text_nodes t)])],
          pending = [], root = None\<rparr>\<close>
proof -
  have 1: \<open>foldl step \<lparr>pmode = Content, opened = [(js ''editor'', [], ks)], pending = [], root = None\<rparr>
           (js ''<language value="'') =
     \<lparr>pmode = AttrValue (js ''language'') [] (js ''value'') (cu (CHR 0x22)) [], opened = [(js ''editor'', [], ks)],
      pending = [], root = None\<rparr>\<close>
    by (simp add: step_defs js_def)
  have 2: "foldl step \<lparr>pmode = AttrValue (js ''language'') [] (js ''value'') (cu (CHR 0x22)) [], opened = [(js ''editor'', [], ks)],
      pending = [], root = None\<rparr> l =
     \<lparr>pmode = AttrValue (js ''language'') [] (js ''value'') (cu (CHR 0x22)) l, opened = [(js ''editor'', [], ks)],
      pending = [], root = None\<rparr>"
    using assms(2) by (simp add: attrvalue_plain)
  have 3: \<open>foldl step \<lparr>pmode = AttrValue (js ''language'') [] (js ''value'') (cu (CHR 0x22)) l, opened = [(js ''editor'', [], ks)],
      pending = [], root = None\<rparr> (js ''" >'') =
     \<lparr>pmode = Content, opened = [(js ''language'', [(js ''value'', l)], []), (js ''editor'', [], ks)],
      pending = [], root = None\<rparr>\<close>
    by (simp add: step_defs js_def)
  have 4: "foldl step \<lparr>pmode = Content, opened = [(js ''language'', [(js ''value'', l)], []), (js ''editor'', [], ks)],
      pending = [], root = None\<rparr> t =
     \<lparr>pmode = Content, opened = [(js ''language'', [(js ''value'', l)], []), (js ''editor'', [], ks)],
      pending = t, root = None\<rparr>"
    using assms(1) by (simp add: content_plain)
  have 5: "foldl step \<lparr>pmode = Content, opened = [(js ''language'', [(js ''value'', l)], []), (js ''editor'', [], ks)],
      pending = t, root = None\<rparr> (js ''</language>'') =
     \<lparr>pmode = Content,
          opened = [(js ''editor'', [], ks @ [Element (js ''language'') [(js ''value'', l)] (text_nodes t)])],
          pending = [], root = None\<rparr>"
    by (cases "t = []") (simp_all add: step_defs text_nodes_def js_def)
  show ?thesis by (simp only: foldl_append 1 2 3 4 5)
qed

lemma editor_document:
  assumes "list_all markup_free t1" "list_all markup_free t2" "list_all markup_free t3"
    and "list_all attr_plain l1" "list_all attr_plain l2" "list_all attr_plain l3"
  shows \<open>foldl step start
           (js ''<editor>'' @
            (js ''<language value="'' @ l1 @ js ''" >'' @ t1 @ js ''</language>'') @
            (js ''<language value="'' @ l2 @ js ''" >'' @ t2 @ js ''</language>'') @
            (js ''<language value="'' @ l3 @ js ''" >'' @ t3 @ js ''</language>'') @
            js ''</editor>'') =
         \<lparr>pmode = Content, opened = [], pending = [],
          root = Some (Element (js ''editor'') []
            [Element (js ''language'') [(js ''value'', l1)] (text_nodes t1),
             Element (js ''language'') [(js ''value'', l2)] (text_nodes t2),
             Element (js ''language'') [(js ''value'', l3)] (text_nodes t3)])\<rparr>\<close>
proof -
  define e1 where \<open>e1 = js ''<language value="'' @ l1 @ js ''" >'' @ t1 @ js ''</language>''\<close>
  define e2 where \<open>e2 = js ''<language value="'' @ l2 @ js ''" >'' @ t2 @ js ''</language>''\<close>
  define e3 where \<open>e3 = js ''<language value="'' @ l3 @ js ''" >'' @ t3 @ js ''</language>''\<close>
  have 0: "foldl step start (js ''<editor>'') =
    \<lparr>pmode = Content, opened = [(js ''editor'', [], [])], pending = [], root = None\<rparr>"
    by (simp add: step_defs start_def js_def)
  have 1: "foldl step \<lparr>pmode = Content, opened = [(js ''editor'', [], ks)], pending = [], root = None\<rparr> e1 =
    \<lparr>pmode = Content,
     opened = [(js ''editor'', [], ks @ [Element (js ''language'') [(js ''value'', l1)] (text_nodes t1)])],
     pending = [], root = None\<rparr>" for ks
    unfolding e1_def using assms(1,4) by (rule language_element)
  have 2: "foldl step \<lparr>pmode = Content, opened = [(js ''editor'', [], ks)], pending = [], root = None\<rparr> e2 =
    \<lparr>pmode = Content,
     opened = [(js ''editor'', [], ks @ [Element (js ''language'') [(js ''value'', l2)] (text_nodes t2)])],
     pending = [], root = None\<rparr>" for ks
    unfolding e2_def using assms(2,5) by (rule language_element)
  have 3: "foldl step \<lparr>pmode = Content, opened = [(js ''editor'', [], ks)], pending = [], root = None\<rparr> e3 =
    \<lparr>pmode = Content,
     opened = [(js ''editor'', [], ks @ [Element (js ''language'') [(js ''value'', l3)] (text_nodes t3)])],
     pending = [], root = None\<rparr>" for ks
    unfolding e3_def using assms(3,6) by (rule language_element)
  have 4: "foldl step \<lparr>pmode = Content, opened = [(js ''editor'', [], ks)], pending = [], root = None\<rparr> (js ''</editor>'') =
    \<lparr>pmode = Content, opened = [], pending = [], root = Some (Element (js ''editor'') [] ks)\<rparr>" for ks
    by (simp add: step_defs js_def)
  have "foldl step start (js ''<editor>'' @ e1 @ e2 @ e3 @ js ''</editor>'') =
    \<lparr>pmode = Content, opened = [], pending = [],
     root = Some (Element (js ''editor'') []
       ((([] @ [Element (js ''language'') [(js ''value'', l1)] (text_nodes t1)]) @
         [Element (js ''language'') [(js ''value'', l2)] (text_nodes t2)]) @
         [Element (js ''language'') [(js ''value'', l3)] (text_nodes t3)]))\<rparr>"
    by (simp only: foldl_append 0 1 2 3 4)
  then show ?thesis unfolding e1_def e2_def e3_def by simp
qed

lemma innerHTML_text_nodes: "list_all markup_free t \<Longrightarrow> innerHTML (Element n as (text_nodes t)) = t"
  by (simp add: text_nodes_def escape_plain)

lemma elements_text_nodes: "concat (map elements (text_nodes t)) = []"
  by (simp add: text_nodes_def)

lemma xml_chars_markup:
  \<open>xml_chars (js ''<editor>'')\<close> \<open>xml_chars (js ''<language value="'')\<close> \<open>xml_chars (js ''" >'')\<close>
  \<open>xml_chars (js ''</language>'')\<close> \<open>xml_chars (js ''</editor>'')\<close>
  \<open>xml_chars (js ''python'')\<close> \<open>xml_chars (js ''javascript'')\<close> \<open>xml_chars (js ''arduino'')\<close>
  by code_simp+

lemma no_cr_markup:
  \<open>cu (CHR 0x0D) \<notin> set (js ''<editor>'')\<close> \<open>cu (CHR 0x0D) \<notin> set (js ''<language value="'')\<close>
  \<open>cu (CHR 0x0D) \<notin> set (js ''" >'')\<close> \<open>cu (CHR 0x0D) \<notin> set (js ''</language>'')\<close>
  \<open>cu (CHR 0x0D) \<notin> set (js ''</editor>'')\<close> \<open>cu (CHR 0x0D) \<notin> set (js ''python'')\<close>
  \<open>cu (CHR 0x0D) \<notin> set (js ''javascript'')\<close> \<open>cu (CHR 0x0D) \<notin> set (js ''arduino'')\<close>
  by (simp_all add: js_def)

lemma attr_plain_configured:
  "list_all attr_plain (js ''python'')" "list_all attr_plain (js ''javascript'')"
  "list_all attr_plain (js ''arduino'')"
  by (simp_all add: attr_plain_def js_def)

lemma parse_state_string:
  assumes "plain_text (buffer (code s) (js ''python''))" "plain_text (buffer (code s) (js ''javascript''))"
    "plain_text (buffer (code s) (js ''arduino''))"
  shows "parse_xml (getStateAsXmlString s) =
    Some (Element (js ''editor'') []
      [Element (js ''language'') [(js ''value'', js ''python'')] (text_nodes (buffer (code s) (js ''python''))),
       Element (js ''language'') [(js ''value'', js ''javascript'')] (text_nodes (buffer (code s) (js ''javascript''))),
       Element (js ''language'') [(js ''value'', js ''arduino'')] (text_nodes (buffer (code s) (js ''arduino'')))])"
proof -
  let ?x = \<open>js ''<editor>'' @
            (js ''<language value="'' @ js ''python'' @ js ''" >'' @ buffer (code s) (js ''python'') @ js ''</language>'') @
            (js ''<language value="'' @ js ''javascript'' @ js ''" >'' @ buffer (code s) (js ''javascript'') @ js ''</language>'') @
            (js ''<language value="'' @ js ''arduino'' @ js ''" >'' @ buffer (code s) (js ''arduino'') @ js ''</language>'') @
            js ''</editor>''\<close>
  from assms have m: "list_all markup_free (buffer (code s) (js ''python''))"
    "list_all markup_free (buffer (code s) (js ''javascript''))"
    "list_all markup_free (buffer (code s) (js ''arduino''))"
    and c: "xml_chars (buffer (code s) (js ''python''))"
    "xml_chars (buffer (code s) (js ''javascript''))"
    "xml_chars (buffer (code s) (js ''arduino''))"
    by (simp_all add: plain_text_def)
  have x: "getStateAsXmlString s = ?x"
    by (simp add: getStateAsXmlString_def languages_def join_def buffer_def)
  have chars: "xml_chars ?x"
    by (intro xml_chars_append xml_chars_markup c)
  have "cu (CHR 0x0D) \<notin> set ?x"
    using m by (simp add: plain_no_cr no_cr_markup del: of_char_Char)
  then have eol: "normalize_eol ?x = ?x" by (rule normalize_eol_id)
  have run: "foldl step start ?x = \<lparr>pmode = Content, opened = [], pending = [],
          root = Some (Element (js ''editor'') []
            [Element (js ''language'') [(js ''value'', js ''python'')] (text_nodes (buffer (code s) (js ''python''))),
             Element (js ''language'') [(js ''value'', js ''javascript'')] (text_nodes (buffer (code s) (js ''javascript''))),
             Element (js ''language'') [(js ''value'', js ''arduino'')] (text_nodes (buffer (code s) (js ''arduino'')))])\<rparr>"
    by (rule editor_document) (fact m attr_plain_configured)+
  show ?thesis
    unfolding x parse_xml_def by (simp only: chars eol run if_True) (simp add: finish_def)
qed

lemma parseFromString_state_string:
  assumes "plain_text (buffer (code s) (js ''python''))" "plain_text (buffer (code s) (js ''javascript''))"
    "plain_text (buffer (code s) (js ''arduino''))"
  shows "parseFromString browser (getStateAsXmlString s) =
    Document (Element (js ''editor'') []
      [Element (js ''language'') [(js ''value'', js ''python'')] (text_nodes (buffer (code s) (js ''python''))),
       Element (js ''language'') [(js ''value'', js ''javascript'')] (text_nodes (buffer (code s) (js ''javascript''))),
       Element (js ''language'') [(js ''value'', js ''arduino'')] (text_nodes (buffer (code s) (js ''arduino'')))])"
  unfolding parseFromString_def parse_state_string [OF assms] by simp

lemma loadStateFromXml_returns:
  assumes "language t \<in> set (map lang_value languages)"
  shows "loadStateFromXml xml t = Returns (state_of (loadStateFromXml xml t))"
proof -
  from assms have "language t \<noteq> []" by (rule configured_nonempty)
  moreover from assms obtain d where "getLanguageAttributes (language t) = Some d"
    using getLanguageAttributes_configured by blast
  ultimately show ?thesis
    unfolding loadStateFromXml_def by (intro refreshEditor_returns) (simp add: or_else_def)
qed

subsection \<open>The round trip\<close>

text \<open>
  Claim C1, as the code has it. When the python, javascript and arduino buffers of an editor
  hold plain text, then \<^verbatim>\<open>loadStateFromXmlString\<close> applied to the result of
  \<^verbatim>\<open>getStateAsXmlString\<close>, on the same editor or on any other and in any browser, leaves
  these three buffers equal to the serialized ones and every other entry, the one of
  \<^verbatim>\<open>blockly\<close> among them, as it was in the loading editor; the call returns when the
  loading editor's active language is a configured one. Plain text is any string, the
  empty one included, of characters that an XML document may hold (tab, line feed, the
  characters from U+0020 to U+D7FF and from U+E000 to U+FFFD, and a character beyond
  U+FFFF as a high surrogate followed by a low surrogate) other than \<^verbatim>\<open><\<close>, \<^verbatim>\<open>&\<close>,
  \<^verbatim>\<open>>\<close> and carriage return. A string with another control character, with U+FFFE or
  U+FFFF, or with a surrogate that has no partner is not plain text.
\<close>

theorem roundtrip_plain:
  assumes "plain_text (buffer (code s) (js ''python''))"
    "plain_text (buffer (code s) (js ''javascript''))"
    "plain_text (buffer (code s) (js ''arduino''))"
  shows "buffer (code (state_of (loadStateFromXmlString (parseFromString browser) (getStateAsXmlString s) t)))
       (js ''python'') = buffer (code s) (js ''python'') \<and>
     buffer (code (state_of (loadStateFromXmlString (parseFromString browser) (getStateAsXmlString s) t)))
       (js ''javascript'') = buffer (code s) (js ''javascript'') \<and>
     buffer (code (state_of (loadStateFromXmlString (parseFromString browser) (getStateAsXmlString s) t)))
       (js ''arduino'') = buffer (code s) (js ''arduino'') \<and>
     (\<forall>l. l \<noteq> js ''python'' \<and> l \<noteq> js ''javascript'' \<and> l \<noteq> js ''arduino'' \<longrightarrow>
        code (state_of (loadStateFromXmlString (parseFromString browser) (getStateAsXmlString s) t)) l =
          code t l) \<and>
     (language t \<in> set (map lang_value languages) \<longrightarrow>
        loadStateFromXmlString (parseFromString browser) (getStateAsXmlString s) t =
          Returns (state_of (loadStateFromXmlString (parseFromString browser) (getStateAsXmlString s) t)))"
proof -
  let ?doc = "Document (Element (js ''editor'') []
      [Element (js ''language'') [(js ''value'', js ''python'')] (text_nodes (buffer (code s) (js ''python''))),
       Element (js ''language'') [(js ''value'', js ''javascript'')] (text_nodes (buffer (code s) (js ''javascript''))),
       Element (js ''language'') [(js ''value'', js ''arduino'')] (text_nodes (buffer (code s) (js ''arduino'')))])"
  from assms have m: "list_all markup_free (buffer (code s) (js ''python''))"
    "list_all markup_free (buffer (code s) (js ''javascript''))"
    "list_all markup_free (buffer (code s) (js ''arduino''))"
    by (simp_all add: plain_text_def)
  have load: "loadStateFromXmlString (parseFromString browser) (getStateAsXmlString s) t =
      loadStateFromXml ?doc t"
    by (simp add: loadStateFromXmlString_def parseFromString_state_string [OF assms])
  have c: "code (state_of (loadStateFromXml ?doc t)) =
    (code t)(js ''python'' \<mapsto> buffer (code s) (js ''python''),
             js ''javascript'' \<mapsto> buffer (code s) (js ''javascript''),
             js ''arduino'' \<mapsto> buffer (code s) (js ''arduino''))"
    using m by (simp add: key_of_def put_def innerHTML_text_nodes elements_text_nodes del: innerHTML.simps)
  have b: "buffer (m(k \<mapsto> buffer n l)) k = buffer n l" for m n :: code_map and k l
    by (simp add: buffer_def or_else_def)
  show ?thesis
    unfolding load
  proof (intro conjI allI impI)
    show "buffer (code (state_of (loadStateFromXml ?doc t))) (js ''python'') = buffer (code s) (js ''python'')"
      unfolding c by (simp add: buffer_def or_else_def)
    show "buffer (code (state_of (loadStateFromXml ?doc t))) (js ''javascript'') = buffer (code s) (js ''javascript'')"
      unfolding c by (simp add: buffer_def or_else_def)
    show "buffer (code (state_of (loadStateFromXml ?doc t))) (js ''arduino'') = buffer (code s) (js ''arduino'')"
      unfolding c by (rule b)
    show "code (state_of (loadStateFromXml ?doc t)) l = code t l"
      if "l \<noteq> js ''python'' \<and> l \<noteq> js ''javascript'' \<and> l \<noteq> js ''arduino''" for l
      unfolding c using that by simp
    show "loadStateFromXml ?doc t = Returns (state_of (loadStateFromXml ?doc t))"
      if "language t \<in> set (map lang_value languages)"
      using that by (rule loadStateFromXml_returns)
  qed
qed

lemma plain_text_examples:
  "plain_text (js ''x = 1'')" "plain_text []" "plain_text (js ''void loop() {}'')"
  "plain_text (js ''s = '' @ [0x22, 0xD83D, 0xDE00, 0x22, 0x0A, 0x09] @ js ''pass'')"
  by code_simp+

theorem roundtrip_plain_witness:
  "plain_text (js ''s = '' @ [0x22, 0xD83D, 0xDE00, 0x22, 0x0A, 0x09] @ js ''pass'') \<and>
   plain_text [] \<and> plain_text (js ''void loop() {}'') \<and>
   buffer (code (state_of (loadStateFromXmlString (parseFromString parsererror_only)
        (getStateAsXmlString (addCodeToEditor (js ''void loop() {}'') (js ''arduino'')
          (addCodeToEditor (js ''s = '' @ [0x22, 0xD83D, 0xDE00, 0x22, 0x0A, 0x09] @ js ''pass'') (js ''python'')
             new_editor)))
        (state_of (CodeEditor plain_textarea WithoutConsole))))) (js ''python'') =
     js ''s = '' @ [0x22, 0xD83D, 0xDE00, 0x22, 0x0A, 0x09] @ js ''pass'' \<and>
   buffer (code (state_of (loadStateFromXmlString (parseFromString parsererror_only)
        (getStateAsXmlString (addCodeToEditor (js ''void loop() {}'') (js ''arduino'')
          (addCodeToEditor (js ''s = '' @ [0x22, 0xD83D, 0xDE00, 0x22, 0x0A, 0x09] @ js ''pass'') (js ''python'')
             new_editor)))
        (state_of (CodeEditor plain_textarea WithoutConsole))))) (js ''javascript'') = [] \<and>
   buffer (code (state_of (loadStateFromXmlString (parseFromString parsererror_only)
        (getStateAsXmlString (addCodeToEditor (js ''void loop() {}'') (js ''arduino'')
          (addCodeToEditor (js ''s = '' @ [0x22, 0xD83D, 0xDE00, 0x22, 0x0A, 0x09] @ js ''pass'') (js ''python'')
             new_editor)))
        (state_of (CodeEditor plain_textarea WithoutConsole))))) (js ''arduino'') = js ''void loop() {}'' \<and>
   buffer (code (state_of (loadStateFromXmlString (parseFromString parsererror_only)
        (getStateAsXmlString (addCodeToEditor (js ''void loop() {}'') (js ''arduino'')
          (addCodeToEditor (js ''s = '' @ [0x22, 0xD83D, 0xDE00, 0x22, 0x0A, 0x09] @ js ''pass'') (js ''python'')
             new_editor)))
        (state_of (CodeEditor plain_textarea WithoutConsole))))) (js ''blockly'') = []"
proof -
  let ?py = "js ''s = '' @ [0x22, 0xD83D, 0xDE00, 0x22, 0x0A, 0x09] @ js ''pass''"
  let ?s = "addCodeToEditor (js ''void loop() {}'') (js ''arduino'')
       (addCodeToEditor ?py (js ''python'') new_editor)"
  let ?t = "state_of (CodeEditor plain_textarea WithoutConsole)"
  let ?out = "state_of (loadStateFromXmlString (parseFromString parsererror_only) (getStateAsXmlString ?s) ?t)"
  have ne: "?py \<noteq> []" by simp
  have p: "buffer (code ?s) (js ''python'') = ?py"
    using ne by (simp add: addCodeToEditor_def put_def buffer_def or_else_def new_editor_fields)
  have j: "buffer (code ?s) (js ''javascript'') = []"
    and a: "buffer (code ?s) (js ''arduino'') = js ''void loop() {}''"
    by (simp_all add: addCodeToEditor_def put_def buffer_def or_else_def new_editor_fields)
  have 1: "plain_text (buffer (code ?s) (js ''python''))"
    unfolding p by (rule plain_text_examples)
  have 2: "plain_text (buffer (code ?s) (js ''javascript''))"
    unfolding j by (rule plain_text_examples)
  have 3: "plain_text (buffer (code ?s) (js ''arduino''))"
    unfolding a by (rule plain_text_examples)
  have t: "code ?t (js ''blockly'') = None" by (simp add: CodeEditor_returns)
  from roundtrip_plain [OF 1 2 3, of parsererror_only ?t] have
    out: "buffer (code ?out) (js ''python'') = buffer (code ?s) (js ''python'')"
      "buffer (code ?out) (js ''javascript'') = buffer (code ?s) (js ''javascript'')"
      "buffer (code ?out) (js ''arduino'') = buffer (code ?s) (js ''arduino'')"
      "code ?out (js ''blockly'') = code ?t (js ''blockly'')"
    by simp_all
  from out(4) t have "buffer (code ?out) (js ''blockly'') = []"
    by (simp add: buffer_def or_else_def)
  with out(1,2,3) plain_text_examples show ?thesis unfolding p j a by (intro conjI)
qed

lemma parse_injected:
  \<open>parse_xml (js ''<editor><language value="python" ></language><language value="javascript" >x</language><language value="javascript" ></language><language value="arduino" ></language></editor>'') =
   Some (Element (js ''editor'') []
     [Element (js ''language'') [(js ''value'', js ''python'')] [],
      Element (js ''language'') [(js ''value'', js ''javascript'')] [Text (js ''x'')],
      Element (js ''language'') [(js ''value'', js ''javascript'')] [],
      Element (js ''language'') [(js ''value'', js ''arduino'')] []])\<close>
  by code_simp

lemma parse_greater:
  \<open>parse_xml (js ''<editor><language value="python" >a > b</language><language value="javascript" ></language><language value="arduino" ></language></editor>'') =
   Some (Element (js ''editor'') []
     [Element (js ''language'') [(js ''value'', js ''python'')] [Text (js ''a > b'')],
      Element (js ''language'') [(js ''value'', js ''javascript'')] [],
      Element (js ''language'') [(js ''value'', js ''arduino'')] []])\<close>
  by code_simp

lemma parse_quot:
  \<open>parse_xml (js ''<editor><language value="python" >print(&quot;&amp;&quot;)</language><language value="javascript" ></language><language value="arduino" ></language></editor>'') =
   Some (Element (js ''editor'') []
     [Element (js ''language'') [(js ''value'', js ''python'')] [Text (js ''print("&")'')],
      Element (js ''language'') [(js ''value'', js ''javascript'')] [],
      Element (js ''language'') [(js ''value'', js ''arduino'')] []])\<close>
  by code_simp

lemma parse_carriage_return:
  \<open>parse_xml (js (''<editor><language value="python" >a'' @ [CHR 0x0D] @ ''b</language><language value="javascript" ></language><language value="arduino" ></language></editor>'')) =
   Some (Element (js ''editor'') []
     [Element (js ''language'') [(js ''value'', js ''python'')] [Text (js (''a'' @ [CHR 0x0A] @ ''b''))],
      Element (js ''language'') [(js ''value'', js ''javascript'')] [],
      Element (js ''language'') [(js ''value'', js ''arduino'')] []])\<close>
  by code_simp

lemma getStateAsXmlString_python_only:
  \<open>getStateAsXmlString (addCodeToEditor (js c) (js ''python'') new_editor) =
     js (''<editor><language value="python" >'' @ c @
     ''</language><language value="javascript" ></language><language value="arduino" ></language></editor>'')\<close>
  by (simp add: getStateAsXmlString_expand addCodeToEditor_def put_def buffer_def or_else_def
      new_editor_fields js_def)

lemma escaped_examples:
  \<open>escape_text (js ''x'') = js ''x''\<close>
  \<open>escape_text (js ''a > b'') = js ''a &gt; b''\<close>
  \<open>escape_text (js ''print("&")'') = js ''print("&amp;")''\<close>
  \<open>escape_text (js (''a'' @ [CHR 0x0A] @ ''b'')) = js (''a'' @ [CHR 0x0A] @ ''b'')\<close>
  by code_simp+

text \<open>
  Claim C1 as stated holds for every buffer content, \<^verbatim>\<open><\<close> and \<^verbatim>\<open>&\<close> included. The
  code writes the buffer between the tags as it is, so the content is read back as markup.
  Each editor below is a new editor given its python buffer by \<^verbatim>\<open>addCodeToEditor\<close>, and
  reloads its own serialized state, which is a well-formed document in each case: the
  result is the same in every browser. A python buffer
  \<^verbatim>\<open></language><language value="javascript" >x\<close> closes its own element: after the round
  trip the python buffer is empty. A python buffer \<^verbatim>\<open>a > b\<close> comes back as
  \<^verbatim>\<open>a &gt; b\<close>, because \<^verbatim>\<open>innerHTML\<close> serializes the text node. A python buffer
  \<^verbatim>\<open>print(&quot;&amp;&quot;)\<close> is read as the text \<^verbatim>\<open>print("&")\<close> and comes back as
  \<^verbatim>\<open>print("&amp;")\<close>. A carriage return comes back as a line feed.
\<close>

theorem roundtrip_counterexample:
  \<open>buffer (code (addCodeToEditor (js ''</language><language value="javascript" >x'') (js ''python'') new_editor))
     (js ''python'') = js ''</language><language value="javascript" >x'' \<and>
   (\<forall>browser. reloaded (parseFromString browser)
     (addCodeToEditor (js ''</language><language value="javascript" >x'') (js ''python'') new_editor)
     (addCodeToEditor (js ''</language><language value="javascript" >x'') (js ''python'') new_editor)
     (js ''python'') = []) \<and>
   (\<forall>browser. reloaded (parseFromString browser)
     (addCodeToEditor (js ''a > b'') (js ''python'') new_editor)
     (addCodeToEditor (js ''a > b'') (js ''python'') new_editor)
     (js ''python'') = js ''a &gt; b'') \<and>
   (\<forall>browser. reloaded (parseFromString browser)
     (addCodeToEditor (js ''print(&quot;&amp;&quot;)'') (js ''python'') new_editor)
     (addCodeToEditor (js ''print(&quot;&amp;&quot;)'') (js ''python'') new_editor)
     (js ''python'') = js ''print("&amp;")'') \<and>
   (\<forall>browser. reloaded (parseFromString browser)
     (addCodeToEditor (js (''a'' @ [CHR 0x0D] @ ''b'')) (js ''python'') new_editor)
     (addCodeToEditor (js (''a'' @ [CHR 0x0D] @ ''b'')) (js ''python'') new_editor)
     (js ''python'') = js (''a'' @ [CHR 0x0A] @ ''b''))\<close>
proof -
  let ?s1 = \<open>addCodeToEditor (js ''</language><language value="javascript" >x'') (js ''python'') new_editor\<close>
  let ?s2 = "addCodeToEditor (js ''a > b'') (js ''python'') new_editor"
  let ?s3 = "addCodeToEditor (js ''print(&quot;&amp;&quot;)'') (js ''python'') new_editor"
  let ?s4 = "addCodeToEditor (js (''a'' @ [CHR 0x0D] @ ''b'')) (js ''python'') new_editor"
  have b1: \<open>buffer (code ?s1) (js ''python'') = js ''</language><language value="javascript" >x''\<close>
    by (simp add: addCodeToEditor_def put_def buffer_def or_else_def)
  have r1: "reloaded (parseFromString browser) ?s1 ?s1 (js ''python'') = []" for browser
    unfolding reloaded_def getStateAsXmlString_python_only
    using parse_injected
    by (simp add: loadStateFromXmlString_def parseFromString_def key_of_def put_def buffer_def
        or_else_def escaped_examples)
  have r2: "reloaded (parseFromString browser) ?s2 ?s2 (js ''python'') = js ''a &gt; b''" for browser
    unfolding reloaded_def getStateAsXmlString_python_only
    using parse_greater
    by (simp add: loadStateFromXmlString_def parseFromString_def key_of_def put_def buffer_def
        or_else_def escaped_examples)
  have r3: \<open>reloaded (parseFromString browser) ?s3 ?s3 (js ''python'') = js ''print("&amp;")''\<close> for browser
    unfolding reloaded_def getStateAsXmlString_python_only
    using parse_quot
    by (simp add: loadStateFromXmlString_def parseFromString_def key_of_def put_def buffer_def
        or_else_def escaped_examples)
  have r4: "reloaded (parseFromString browser) ?s4 ?s4 (js ''python'') = js (''a'' @ [CHR 0x0A] @ ''b'')" for browser
    unfolding reloaded_def getStateAsXmlString_python_only
    using parse_carriage_return escaped_examples(4)
    by (simp add: loadStateFromXmlString_def parseFromString_def key_of_def put_def buffer_def
        or_else_def)
  from b1 r1 r2 r3 r4 show ?thesis by (intro conjI allI)
qed

subsection \<open>Input that is not the persisted format\<close>

text \<open>
  Claim C4, as the code has it. \<^verbatim>\<open>loadStateFromXmlString\<close> has no check of its own and
  refuses no input: for every input and every parser it applies \<^verbatim>\<open>loadStateFromXml\<close> to
  the document that the parser returns. An entry of the buffers is left unchanged when no
  \<^verbatim>\<open>language\<close> element of that document carries its key, and all entries are left
  unchanged when that document has no \<^verbatim>\<open>language\<close> element, as is the case for the
  error document that the HTML Standard prescribes for input that is not well formed.
\<close>

theorem loadStateFromXmlString_applies_document:
  "loadStateFromXmlString parser x s = loadStateFromXml (parser x) s \<and>
   (list_all (\<lambda>e. key_of (getAttribute e (js ''value'')) \<noteq> k)
        (getElementsByTagName (js ''language'') (parser x)) \<longrightarrow>
      code (state_of (loadStateFromXmlString parser x s)) k = code s k) \<and>
   (getElementsByTagName (js ''language'') (parser x) = [] \<longrightarrow>
      code (state_of (loadStateFromXmlString parser x s)) = code s)"
  by (simp add: loadStateFromXmlString_def load_loop_other)

lemma parse_truncated:
  \<open>parse_xml (js ''<editor><language value="python">x=1</language>'') = None\<close>
  by code_simp

lemma parse_javascript_only:
  \<open>parse_xml (js ''<editor><language value="javascript">y</language></editor>'') =
     Some (Element (js ''editor'') [] [Element (js ''language'') [(js ''value'', js ''javascript'')] [Text (js ''y'')]])\<close>
  by code_simp

theorem loadStateFromXmlString_applies_document_witness:
  \<open>getElementsByTagName (js ''language'')
     (parseFromString parsererror_only (js ''<editor><language value="python">x=1</language>'')) = [] \<and>
   code (state_of (loadStateFromXmlString (parseFromString parsererror_only)
       (js ''<editor><language value="python">x=1</language>'')
       (addCodeToEditor (js ''old'') (js ''python'') new_editor))) = [js ''python'' \<mapsto> js ''old''] \<and>
   code (state_of (loadStateFromXmlString (parseFromString parsererror_only)
       (js ''<editor><language value="javascript">y</language></editor>'')
       (addCodeToEditor (js ''old'') (js ''python'') new_editor))) (js ''python'') = Some (js ''old'')\<close>
proof -
  let ?s = "addCodeToEditor (js ''old'') (js ''python'') new_editor"
  let ?x = \<open>js ''<editor><language value="python">x=1</language>''\<close>
  let ?y = \<open>js ''<editor><language value="javascript">y</language></editor>''\<close>
  have c: "code ?s = [js ''python'' \<mapsto> js ''old'']"
    by (simp add: addCodeToEditor_def put_def new_editor_fields)
  have 1: "getElementsByTagName (js ''language'') (parseFromString parsererror_only ?x) = []"
    by (simp add: parseFromString_def parse_truncated parsererror_only_def)
  have 2: "list_all (\<lambda>e. key_of (getAttribute e (js ''value'')) \<noteq> js ''python'')
        (getElementsByTagName (js ''language'') (parseFromString parsererror_only ?y))"
    by (simp add: parseFromString_def parse_javascript_only key_of_def)
  have 3: "code ?s (js ''python'') = Some (js ''old'')"
    unfolding c by simp
  from loadStateFromXmlString_applies_document [of "parseFromString parsererror_only" ?x ?s] 1
  have a: "code (state_of (loadStateFromXmlString (parseFromString parsererror_only) ?x ?s)) = code ?s"
    by blast
  from loadStateFromXmlString_applies_document [of "parseFromString parsererror_only" ?y ?s "js ''python''"] 2
  have b: "code (state_of (loadStateFromXmlString (parseFromString parsererror_only) ?y ?s)) (js ''python'') =
      code ?s (js ''python'')"
    by blast
  from 1 a [unfolded c] b [unfolded 3] show ?thesis by (intro conjI)
qed

lemma parse_other_root:
  \<open>parse_xml (js ''<html><language value="python">print(1)</language></html>'') =
     Some (Element (js ''html'') [] [Element (js ''language'') [(js ''value'', js ''python'')] [Text (js ''print(1)'')]])\<close>
  by code_simp

lemma parse_extra_child:
  \<open>parse_xml (js ''<editor><language value="python">x=1</language><broken/></editor>'') =
     Some (Element (js ''editor'') []
       [Element (js ''language'') [(js ''value'', js ''python'')] [Text (js ''x=1'')], Element (js ''broken'') [] []])\<close>
  by code_simp

lemma escaped_loaded:
  "escape_text (js ''print(1)'') = js ''print(1)''" "escape_text (js ''x=1'') = js ''x=1''"
  by code_simp+

text \<open>
  Claim C4 as stated leaves the buffers unchanged for every input that does not parse as the
  expected dialect. A well-formed document with the root \<^verbatim>\<open>html\<close> is not the dialect,
  and its \<^verbatim>\<open>language\<close> element is loaded all the same, in every browser; so is the
  \<^verbatim>\<open>language\<close> element of an \<^verbatim>\<open>editor\<close> document that holds a foreign element
  beside it. And the truncated document \<^verbatim>\<open><editor><language value="python">x=1</language>\<close>
  is not well formed, but in a browser that returns the elements read before the error the
  python buffer \<^verbatim>\<open>old\<close> is overwritten with \<^verbatim>\<open>x=1\<close>.
\<close>

theorem loadStateFromXmlString_counterexample:
  \<open>\<not> expected_dialect (js ''<html><language value="python">print(1)</language></html>'') \<and>
   code new_editor (js ''python'') = None \<and>
   (\<forall>browser. code (state_of (loadStateFromXmlString (parseFromString browser)
       (js ''<html><language value="python">print(1)</language></html>'') new_editor)) (js ''python'') =
     Some (js ''print(1)'')) \<and>
   \<not> expected_dialect (js ''<editor><language value="python">x=1</language><broken/></editor>'') \<and>
   (\<forall>browser. code (state_of (loadStateFromXmlString (parseFromString browser)
       (js ''<editor><language value="python">x=1</language><broken/></editor>'') new_editor)) (js ''python'') =
     Some (js ''x=1'')) \<and>
   \<not> expected_dialect (js ''<editor><language value="python">x=1</language>'') \<and>
   parse_xml (js ''<editor><language value="python">x=1</language>'') = None \<and>
   code (addCodeToEditor (js ''old'') (js ''python'') new_editor) (js ''python'') = Some (js ''old'') \<and>
   code (state_of (loadStateFromXmlString (parseFromString keeps_read_elements)
       (js ''<editor><language value="python">x=1</language>'')
       (addCodeToEditor (js ''old'') (js ''python'') new_editor))) (js ''python'') = Some (js ''x=1'')\<close>
proof -
  have a: \<open>code (state_of (loadStateFromXmlString (parseFromString browser)
       (js ''<html><language value="python">print(1)</language></html>'') new_editor)) (js ''python'') =
     Some (js ''print(1)'')\<close> for browser
    by (simp add: loadStateFromXmlString_def parseFromString_def parse_other_root key_of_def put_def
        escaped_loaded)
  have b: \<open>code (state_of (loadStateFromXmlString (parseFromString browser)
       (js ''<editor><language value="python">x=1</language><broken/></editor>'') new_editor)) (js ''python'') =
     Some (js ''x=1'')\<close> for browser
    by (simp add: loadStateFromXmlString_def parseFromString_def parse_extra_child key_of_def put_def
        escaped_loaded)
  have c: \<open>code (state_of (loadStateFromXmlString (parseFromString keeps_read_elements)
       (js ''<editor><language value="python">x=1</language>'')
       (addCodeToEditor (js ''old'') (js ''python'') new_editor))) (js ''python'') = Some (js ''x=1'')\<close>
    by (simp add: loadStateFromXmlString_def parseFromString_def parse_truncated keeps_read_elements_def
        key_of_def put_def escaped_loaded)
  have d: \<open>\<not> expected_dialect (js ''<html><language value="python">print(1)</language></html>'')\<close>
    \<open>\<not> expected_dialect (js ''<editor><language value="python">x=1</language><broken/></editor>'')\<close>
    \<open>\<not> expected_dialect (js ''<editor><language value="python">x=1</language>'')\<close>
    by (simp_all add: expected_dialect_def parse_other_root parse_extra_child parse_truncated)
  have e: "code new_editor (js ''python'') = None"
    "code (addCodeToEditor (js ''old'') (js ''python'') new_editor) (js ''python'') = Some (js ''old'')"
    by (simp_all add: new_editor_fields addCodeToEditor_def put_def)
  from a b c d e parse_truncated show ?thesis by (intro conjI allI)
qed

end
